theory Spec2Isabelle
  imports Complex_Main "HOL-Library.AList"
begin

section \<open>JavaScript values\<close>

text \<open>
  A JavaScript number is modelled as an exact real, or one of the three special values
  of IEEE arithmetic the program can produce. Rounding, overflow and the sign of zero
  are not modelled: every divisor in the program is an array length or a positive sum.
\<close>

datatype jsnum = Fin real | PInf | NInf | NaN

fun isNaN :: "jsnum \<Rightarrow> bool" where
  "isNaN NaN = True"
| "isNaN _ = False"

fun isFinite :: "jsnum \<Rightarrow> bool" where
  "isFinite (Fin _) = True"
| "isFinite _ = False"

fun jneg :: "jsnum \<Rightarrow> jsnum" where
  "jneg (Fin a) = Fin (- a)"
| "jneg PInf = NInf"
| "jneg NInf = PInf"
| "jneg NaN = NaN"

fun jadd :: "jsnum \<Rightarrow> jsnum \<Rightarrow> jsnum" where
  "jadd (Fin a) (Fin b) = Fin (a + b)"
| "jadd NaN _ = NaN"
| "jadd _ NaN = NaN"
| "jadd PInf NInf = NaN"
| "jadd NInf PInf = NaN"
| "jadd PInf _ = PInf"
| "jadd _ PInf = PInf"
| "jadd NInf _ = NInf"
| "jadd _ NInf = NInf"

definition jsub :: "jsnum \<Rightarrow> jsnum \<Rightarrow> jsnum" where
  "jsub a b = jadd a (jneg b)"

fun jsign :: "real \<Rightarrow> jsnum" where
  "jsign a = (if a = 0 then NaN else if 0 < a then PInf else NInf)"

fun jmul :: "jsnum \<Rightarrow> jsnum \<Rightarrow> jsnum" where
  "jmul (Fin a) (Fin b) = Fin (a * b)"
| "jmul NaN _ = NaN"
| "jmul _ NaN = NaN"
| "jmul PInf (Fin b) = jsign b"
| "jmul NInf (Fin b) = jsign (- b)"
| "jmul (Fin a) PInf = jsign a"
| "jmul (Fin a) NInf = jsign (- a)"
| "jmul PInf PInf = PInf"
| "jmul NInf NInf = PInf"
| "jmul PInf NInf = NInf"
| "jmul NInf PInf = NInf"

text \<open>Division; a zero divisor is the positive zero.\<close>

fun jdiv :: "jsnum \<Rightarrow> jsnum \<Rightarrow> jsnum" where
  "jdiv (Fin a) (Fin b) = (if b = 0 then jsign a else Fin (a / b))"
| "jdiv NaN _ = NaN"
| "jdiv _ NaN = NaN"
| "jdiv PInf (Fin b) = (if 0 \<le> b then PInf else NInf)"
| "jdiv NInf (Fin b) = (if 0 \<le> b then NInf else PInf)"
| "jdiv (Fin a) PInf = Fin 0"
| "jdiv (Fin a) NInf = Fin 0"
| "jdiv _ _ = NaN"

text \<open>The comparisons \<open><\<close> and \<open><=\<close>; every comparison with NaN is false.\<close>

fun jlt :: "jsnum \<Rightarrow> jsnum \<Rightarrow> bool" where
  "jlt (Fin a) (Fin b) = (a < b)"
| "jlt NaN _ = False"
| "jlt _ NaN = False"
| "jlt _ NInf = False"
| "jlt PInf _ = False"
| "jlt _ _ = True"

fun jle :: "jsnum \<Rightarrow> jsnum \<Rightarrow> bool" where
  "jle (Fin a) (Fin b) = (a \<le> b)"
| "jle NaN _ = False"
| "jle _ NaN = False"
| "jle NInf _ = True"
| "jle _ PInf = True"
| "jle _ _ = False"

definition jgt :: "jsnum \<Rightarrow> jsnum \<Rightarrow> bool" where
  "jgt a b = jlt b a"

text \<open>\<open>x || 0\<close> on a number: zero and NaN are falsy.\<close>

fun orZero :: "jsnum \<Rightarrow> jsnum" where
  "orZero NaN = Fin 0"
| "orZero x = x"

text \<open>\<open>x || 0\<close> on a property that may be undefined.\<close>

fun optOrZero :: "jsnum option \<Rightarrow> jsnum" where
  "optOrZero None = Fin 0"
| "optOrZero (Some x) = orZero x"

datatype jsval = VNum jsnum | VStr string | VUndef

section \<open>Strings\<close>

text \<open>
  Strings are lists of 8-bit characters; the white space of \<open>trim\<close> and of
  \<open>Number\<close> is the part of JavaScript's white space and line terminators in that range.
\<close>

definition isWhite :: "char \<Rightarrow> bool" where
  "isWhite c = (c = CHR 0x09 \<or> c = CHR 0x0A \<or> c = CHR 0x0B \<or> c = CHR 0x0C
                \<or> c = CHR 0x0D \<or> c = CHR 0x20 \<or> c = CHR 0xA0)"

definition trim :: "string \<Rightarrow> string" where
  "trim s = rev (dropWhile isWhite (rev (dropWhile isWhite s)))"

text \<open>\<open>s.split(c)\<close> for a one-character separator: never empty.\<close>

fun splitOn :: "char \<Rightarrow> string \<Rightarrow> string list" where
  "splitOn c [] = [[]]"
| "splitOn c (x # xs) =
     (if x = c then [] # splitOn c xs
      else (case splitOn c xs of [] \<Rightarrow> [[x]] | p # ps \<Rightarrow> (x # p) # ps))"

text \<open>
  \<open>s.split(/\r?\n/)\<close>: a line ends at a line feed, and one carriage return just
  before it belongs to the separator.
\<close>

definition dropCR :: "string \<Rightarrow> string" where
  "dropCR l = (if l \<noteq> [] \<and> last l = CHR 0x0D then butlast l else l)"

fun reLines :: "string list \<Rightarrow> string list" where
  "reLines [] = []"
| "reLines [l] = [l]"
| "reLines (l # ls) = dropCR l # reLines ls"

definition splitLines :: "string \<Rightarrow> string list" where
  "splitLines s = reLines (splitOn (CHR 0x0A) s)"

definition endsWith :: "string \<Rightarrow> string \<Rightarrow> bool" where
  "endsWith s suf = (length suf \<le> length s \<and> drop (length s - length suf) s = suf)"

definition startsWith :: "string \<Rightarrow> string \<Rightarrow> bool" where
  "startsWith s pre = (take (length pre) s = pre)"

text \<open>\<open>xs[i]\<close> of an array: undefined out of range.\<close>

definition nth_opt :: "'a list \<Rightarrow> nat \<Rightarrow> 'a option" where
  "nth_opt xs i = (if i < length xs then Some (xs ! i) else None)"

subsection \<open>\<open>Number\<close> of a string\<close>

definition digitTable :: "(char \<times> nat) list" where
  "digitTable =
    [(CHR ''0'', 0), (CHR ''1'', 1), (CHR ''2'', 2), (CHR ''3'', 3), (CHR ''4'', 4),
     (CHR ''5'', 5), (CHR ''6'', 6), (CHR ''7'', 7), (CHR ''8'', 8), (CHR ''9'', 9),
     (CHR ''a'', 10), (CHR ''A'', 10), (CHR ''b'', 11), (CHR ''B'', 11), (CHR ''c'', 12),
     (CHR ''C'', 12), (CHR ''d'', 13), (CHR ''D'', 13), (CHR ''e'', 14), (CHR ''E'', 14),
     (CHR ''f'', 15), (CHR ''F'', 15)]"

definition digitVal :: "char \<Rightarrow> nat option" where
  "digitVal c = map_of digitTable c"

definition isDigit :: "nat \<Rightarrow> char \<Rightarrow> bool" where
  "isDigit base c = (case digitVal c of None \<Rightarrow> False | Some d \<Rightarrow> d < base)"

text \<open>The value of a digit string in a base, most significant digit first.\<close>

fun digitsVal :: "nat \<Rightarrow> nat \<Rightarrow> string \<Rightarrow> nat" where
  "digitsVal base acc [] = acc"
| "digitsVal base acc (c # cs) =
     digitsVal base (acc * base + (case digitVal c of None \<Rightarrow> 0 | Some d \<Rightarrow> d)) cs"

text \<open>\<open>0x\<close>, \<open>0o\<close> and \<open>0b\<close> literals: unsigned, at least one digit.\<close>

definition nonDecimal :: "string \<Rightarrow> nat option" where
  "nonDecimal s =
    (case s of
       z # p # ds \<Rightarrow>
         (let base = (if p = CHR ''x'' \<or> p = CHR ''X'' then 16
                      else if p = CHR ''o'' \<or> p = CHR ''O'' then 8
                      else if p = CHR ''b'' \<or> p = CHR ''B'' then 2 else (0::nat))
          in if z = CHR ''0'' \<and> base \<noteq> 0 \<and> ds \<noteq> [] \<and> list_all (isDigit base) ds
             then Some (digitsVal base 0 ds) else None)
     | _ \<Rightarrow> None)"

text \<open>The exponent part: empty, or \<open>e\<close>, an optional sign and at least one digit.\<close>

definition exponentPart :: "string \<Rightarrow> int option" where
  "exponentPart s =
    (case s of
       [] \<Rightarrow> Some 0
     | e # r \<Rightarrow>
         if e = CHR ''e'' \<or> e = CHR ''E'' then
           (let (neg, ds) = (case r of
                               [] \<Rightarrow> (False, [])
                             | c # r' \<Rightarrow> if c = CHR ''-'' then (True, r')
                                         else if c = CHR ''+'' then (False, r') else (False, r))
            in if ds \<noteq> [] \<and> list_all (isDigit 10) ds
               then Some (if neg then - int (digitsVal 10 0 ds) else int (digitsVal 10 0 ds))
               else None)
         else None)"

definition scale10 :: "nat \<Rightarrow> int \<Rightarrow> real" where
  "scale10 m e = (if 0 \<le> e then real m * 10 ^ nat e else real m / 10 ^ nat (- e))"

text \<open>An unsigned decimal literal: \<open>Infinity\<close>, or digits with an optional fraction and exponent.\<close>

definition unsignedDecimal :: "string \<Rightarrow> jsnum" where
  "unsignedDecimal s =
    (if s = ''Infinity'' then PInf
     else
       (let ip = takeWhile (isDigit 10) s; r1 = dropWhile (isDigit 10) s;
            dot = (r1 \<noteq> [] \<and> hd r1 = CHR ''.'');
            fp = (if dot then takeWhile (isDigit 10) (tl r1) else []);
            r2 = (if dot then dropWhile (isDigit 10) (tl r1) else r1)
        in if ip = [] \<and> fp = [] then NaN
           else (case exponentPart r2 of
                   None \<Rightarrow> NaN
                 | Some e \<Rightarrow> Fin (scale10 (digitsVal 10 0 (ip @ fp)) (e - int (length fp))))))"

definition strToNumber :: "string \<Rightarrow> jsnum" where
  "strToNumber s =
    (let t = trim s in
     if t = [] then Fin 0
     else (case nonDecimal t of
             Some n \<Rightarrow> Fin (real n)
           | None \<Rightarrow>
               if hd t = CHR ''-'' then jneg (unsignedDecimal (tl t))
               else if hd t = CHR ''+'' then unsignedDecimal (tl t)
               else unsignedDecimal t))"

text \<open>\<open>Number(v)\<close>.\<close>

fun toNumber :: "jsval \<Rightarrow> jsnum" where
  "toNumber (VNum n) = n"
| "toNumber (VStr s) = strToNumber s"
| "toNumber VUndef = NaN"

section \<open>The table parser (engine.ts)\<close>

text \<open>
  A record is an association list with distinct keys, in insertion order. (JavaScript
  lists keys that look like array indices first; every reader of a record here looks
  keys up by name or tests a property of each key, so that order is not modelled.)
\<close>

type_synonym row = "(string \<times> jsval) list"

text \<open>\<open>r[k]\<close> and \<open>k in r\<close> on a record.\<close>

definition field :: "row \<Rightarrow> string \<Rightarrow> jsval" where
  "field r k = (case map_of r k of None \<Rightarrow> VUndef | Some v \<Rightarrow> v)"

definition hasKey :: "row \<Rightarrow> string \<Rightarrow> bool" where
  "hasKey r k = (map_of r k \<noteq> None)"

definition cells :: "string \<Rightarrow> string list" where
  "cells line = map trim (splitOn (CHR '','') line)"

text \<open>One cell under a header: a finite number, or the text (undefined when the row is short).\<close>

definition cellValue :: "string option \<Rightarrow> jsval" where
  "cellValue c =
    (case c of
       None \<Rightarrow> VUndef
     | Some t \<Rightarrow> (let n = strToNumber t in if isFinite n then VNum n else VStr t))"

fun rowOf :: "string list \<Rightarrow> string list \<Rightarrow> nat \<Rightarrow> row \<Rightarrow> row" where
  "rowOf [] cols i obj = obj"
| "rowOf (h # hs) cols i obj = rowOf hs cols (Suc i) (AList.update h (cellValue (nth_opt cols i)) obj)"

definition parseCSV :: "string \<Rightarrow> row list" where
  "parseCSV text =
    (let lines = splitLines (trim text);
         headers = cells (hd lines);
         hasHeader = list_ex (\<lambda>h. isNaN (strToNumber h) \<and> 0 < length h) headers
     in if \<not> hasHeader then map (\<lambda>line. [(''value'', VNum (strToNumber (trim line)))]) lines
        else map (\<lambda>line. rowOf headers (cells line) 0 []) (tl lines))"

section \<open>The state deriver (engine.ts)\<close>

datatype failure = TypeError | NoData

record bin =
  bin_id :: string
  bin_max :: real

record windows =
  w_trend :: "real option"
  w_variance :: "real option"

record ncvspec =
  ncv_from :: string
  ncv_map :: "(string \<times> string) list"

record rule =
  rule_if :: string
  rule_then :: "string list"

record fnrules =
  thresholds :: "rule list option"

text \<open>
  The Codebook type. The fields that the code reads through \<open>?.\<close>, \<open>??\<close> or \<open>||\<close>
  are optional here; \<open>bins\<close> and \<open>ncv\<close> are objects, written as association lists.
\<close>

record codebook =
  entity :: string
  channels :: "string list"
  cb_windows :: "windows option"
  cb_bins :: "(string \<times> bin list) list"
  cb_ncv :: "(string \<times> ncvspec) list option"
  cb_functions :: "fnrules option"

text \<open>
  The derived state of one row. A field that JavaScript holds as an object of tags is a
  map; a tag that is \<open>undefined\<close> is an absent key (the program only reads tags, and
  reads an absent key as \<open>undefined\<close>).
\<close>

record state =
  st_raw :: row
  st_bins :: "string \<rightharpoonup> string"
  st_trend :: "string \<rightharpoonup> jsnum"
  st_var :: "string \<rightharpoonup> jsnum"
  st_setpoint :: "string \<rightharpoonup> string"
  st_relative :: "string \<rightharpoonup> string"
  st_NCV :: "string \<rightharpoonup> string"

text \<open>
  \<open>binValue\<close>: the first bin whose max is at least the value, else the last bin.
  Iterating an undefined bin list, and reading the id of the last bin of an empty list,
  throw a TypeError.
\<close>

fun firstBin :: "bin list \<Rightarrow> jsnum \<Rightarrow> string option" where
  "firstBin [] v = None"
| "firstBin (b # bs) v = (if jle v (Fin (bin_max b)) then Some (bin_id b) else firstBin bs v)"

definition binValue :: "bin list option \<Rightarrow> jsnum \<Rightarrow> failure + string" where
  "binValue bins v =
    (case bins of
       None \<Rightarrow> Inl TypeError
     | Some bs \<Rightarrow>
         (case firstBin bs v of
            Some i \<Rightarrow> Inr i
          | None \<Rightarrow> if bs = [] then Inl TypeError else Inr (bin_id (last bs))))"

record rollstat =
  r_mean :: jsnum
  r_variance :: jsnum
  r_trend :: jsnum

text \<open>\<open>rows.slice(start, idx + 1)\<close> for a start that is a non-negative number.\<close>

definition sliceFrom :: "'a list \<Rightarrow> real \<Rightarrow> nat \<Rightarrow> 'a list" where
  "sliceFrom xs start stop = (let a = nat \<lfloor>start\<rfloor> in take (stop - a) (drop a xs))"

definition rolling :: "row list \<Rightarrow> nat \<Rightarrow> real \<Rightarrow> string \<Rightarrow> rollstat" where
  "rolling rows idx n key =
    (let start = max 0 (real idx - n + 1);
         arr = map (\<lambda>r. orZero (toNumber (field r key))) (sliceFrom rows start (idx + 1));
         len = Fin (real (length arr));
         mean = jdiv (foldl jadd (Fin 0) arr) len;
         variance = jdiv (foldl (\<lambda>a b. jadd a (jmul (jsub b mean) (jsub b mean))) (Fin 0) arr) len;
         trend = (if 1 < length arr then jsub (last arr) (hd arr) else Fin 0)
     in \<lparr>r_mean = mean, r_variance = variance, r_trend = trend\<rparr>)"

text \<open>The loop over the tracked channels of one row.\<close>

fun channelLoop :: "row list \<Rightarrow> nat \<Rightarrow> real \<Rightarrow> codebook \<Rightarrow> row \<Rightarrow> string list \<Rightarrow> state \<Rightarrow> failure + state" where
  "channelLoop rows idx win cb r [] s = Inr s"
| "channelLoop rows idx win cb r (ch # chs) s =
    (case binValue (map_of (cb_bins cb) ch) (orZero (toNumber (field r ch))) of
       Inl e \<Rightarrow> Inl e
     | Inr b \<Rightarrow>
         (let roll = rolling rows idx win ch
          in channelLoop rows idx win cb r chs
               (s\<lparr>st_bins := (st_bins s)(ch \<mapsto> b),
                  st_trend := (st_trend s)(ch \<mapsto> r_trend roll),
                  st_var := (st_var s)(ch \<mapsto> r_variance roll)\<rparr>)))"

text \<open>A comparison with a number that may be undefined (undefined compares as NaN).\<close>

definition numOf :: "jsnum option \<Rightarrow> jsnum" where
  "numOf v = (case v of None \<Rightarrow> NaN | Some x \<Rightarrow> x)"

text \<open>The tag an NCV rule reads from the state, by the form of its source path.\<close>

definition sourceTag :: "state \<Rightarrow> string \<Rightarrow> string option" where
  "sourceTag s src =
    (let parts = splitOn (CHR ''.'') src in
     if endsWith src ''.var'' then
       (let v = numOf (st_var s (hd parts))
        in Some (if jlt v (Fin 0.0001) then ''low'' else if jlt v (Fin 0.005) then ''med'' else ''high''))
     else if endsWith src ''.trend'' then
       (let v = numOf (st_trend s (hd parts))
        in Some (if jgt v (Fin 0.01) then ''up'' else if jlt v (Fin (- 0.01)) then ''down'' else ''flat''))
     else if startsWith src ''setpoint.'' then st_setpoint s (parts ! 1)
     else if startsWith src ''relative.'' then st_relative s (parts ! 1)
     else if endsWith src ''.bin'' then st_bins s (hd parts)
     else Some ''flat'')"

definition ncvValue :: "state \<Rightarrow> ncvspec \<Rightarrow> string option" where
  "ncvValue s spec =
    (let tag = sourceTag s (ncv_from spec)
     in case find (\<lambda>p. Some (fst p) = tag) (ncv_map spec) of
          Some p \<Rightarrow> Some (snd p)
        | None \<Rightarrow> tag)"

fun ncvLoop :: "(string \<times> ncvspec) list \<Rightarrow> state \<Rightarrow> state" where
  "ncvLoop [] s = s"
| "ncvLoop ((k, spec) # rest) s = ncvLoop rest (s\<lparr>st_NCV := (st_NCV s)(k := ncvValue s spec)\<rparr>)"

definition relativeTag :: "row \<Rightarrow> string" where
  "relativeTag r =
    (let l = orZero (toNumber (field r ''lum'')); tr = orZero (toNumber (field r ''transpiration''))
     in if jgt (jsub l tr) (Fin 0.1) then ''lum_dominant''
        else if jgt (jsub tr l) (Fin 0.1) then ''transpiration_dominant'' else ''balanced'')"

definition emptyState :: "row \<Rightarrow> state" where
  "emptyState r = \<lparr>st_raw = r, st_bins = Map.empty, st_trend = Map.empty, st_var = Map.empty,
                    st_setpoint = Map.empty, st_relative = Map.empty, st_NCV = Map.empty\<rparr>"

text \<open>The state of the row at index \<open>idx\<close>: the body of the \<open>rows.map\<close> callback.\<close>

definition stateOf :: "row list \<Rightarrow> real \<Rightarrow> codebook \<Rightarrow> nat \<Rightarrow> row \<Rightarrow> failure + state" where
  "stateOf rows win cb idx r =
    (case channelLoop rows idx win cb r (channels cb) (emptyState r) of
       Inl e \<Rightarrow> Inl e
     | Inr s1 \<Rightarrow>
         (let s2 = (if ''temp'' \<in> dom (st_bins s1)
                    then s1\<lparr>st_setpoint := (st_setpoint s1)(''temp'' := st_bins s1 ''temp'')\<rparr> else s1);
              s3 = (if hasKey r ''lum'' \<and> hasKey r ''transpiration''
                    then s2\<lparr>st_relative := (st_relative s2)(''lum_vs_transpiration'' \<mapsto> relativeTag r)\<rparr>
                    else s2)
          in Inr (ncvLoop (case cb_ncv cb of None \<Rightarrow> [] | Some n \<Rightarrow> n) s3)))"

text \<open>\<open>rows.map\<close> with a callback that may throw: the first failure ends the map.\<close>

fun mapRows :: "(nat \<Rightarrow> row \<Rightarrow> failure + state) \<Rightarrow> nat \<Rightarrow> row list \<Rightarrow> failure + state list" where
  "mapRows f idx [] = Inr []"
| "mapRows f idx (r # rs) =
    (case f idx r of
       Inl e \<Rightarrow> Inl e
     | Inr s \<Rightarrow> (case mapRows f (Suc idx) rs of Inl e \<Rightarrow> Inl e | Inr ss \<Rightarrow> Inr (s # ss)))"

definition windowOf :: "codebook \<Rightarrow> real" where
  "windowOf cb = (case cb_windows cb of None \<Rightarrow> 5 | Some w \<Rightarrow> (case w_trend w of None \<Rightarrow> 5 | Some n \<Rightarrow> n))"

definition computeStates :: "row list \<Rightarrow> codebook \<Rightarrow> failure + state list" where
  "computeStates rows cb = mapRows (stateOf rows (windowOf cb) cb) 0 rows"

subsection \<open>Threshold rules\<close>

text \<open>
  \<open>selectFunctions\<close> runs each rule's expression as JavaScript source against a fixed
  table of eight signals. The JavaScript evaluator is a parameter \<open>ev\<close>: the truth of
  the expression's value, or None when running it throws.
\<close>

type_synonym evaluator = "string \<Rightarrow> (string \<times> jsval) list \<Rightarrow> bool option"

definition tagVal :: "string option \<Rightarrow> jsval" where
  "tagVal t = (case t of None \<Rightarrow> VUndef | Some x \<Rightarrow> VStr x)"

definition numVal :: "jsnum option \<Rightarrow> jsval" where
  "numVal t = (case t of None \<Rightarrow> VUndef | Some x \<Rightarrow> VNum x)"

definition signalEnv :: "state \<Rightarrow> (string \<times> jsval) list" where
  "signalEnv s =
    [(''temp.bin'', tagVal (st_bins s ''temp'')),
     (''lum.bin'', tagVal (st_bins s ''lum'')),
     (''bio_potential.trend'', numVal (st_trend s ''bio_potential'')),
     (''lum.trend'', numVal (st_trend s ''lum'')),
     (''seismic.bin'', tagVal (st_bins s ''seismic'')),
     (''tilt.bin'', tagVal (st_bins s ''tilt'')),
     (''gas_flux.bin'', tagVal (st_bins s ''gas_flux'')),
     (''seismic.trend'', numVal (st_trend s ''seismic''))]"

definition rulesOf :: "codebook \<Rightarrow> rule list" where
  "rulesOf cb =
    (case cb_functions cb of
       None \<Rightarrow> []
     | Some f \<Rightarrow> (case thresholds f of None \<Rightarrow> [] | Some rs \<Rightarrow> rs))"

definition selectFunctions :: "evaluator \<Rightarrow> state \<Rightarrow> codebook \<Rightarrow> string list" where
  "selectFunctions ev s cb =
    concat (map (\<lambda>r. if ev (rule_if r) (signalEnv s) = Some True then rule_then r else []) (rulesOf cb))"

section \<open>Regimes, bridges and beat palettes (App.tsx)\<close>

text \<open>
  The typographic apostrophes and quotation marks of the source's sentences are written
  as their ASCII counterparts.
\<close>

datatype regime = Horror | Trickster | Thriller | Fairytale | Shamanic

fun regimeName :: "regime \<Rightarrow> string" where
  "regimeName Horror = ''horror''"
| "regimeName Trickster = ''trickster''"
| "regimeName Thriller = ''thriller''"
| "regimeName Fairytale = ''fairytale''"
| "regimeName Shamanic = ''shamanic''"

definition REGIME_LIST :: "regime list" where
  "REGIME_LIST = [Horror, Trickster, Thriller, Fairytale, Shamanic]"

definition ALLOWED_BRIDGES :: "(string \<times> string) list" where
  "ALLOWED_BRIDGES =
    [(''horror->shamanic'', ''bridge.underworld_mouth''),
     (''thriller->trickster'', ''bridge.unreliable_ally''),
     (''fairytale->horror'', ''bridge.taboo_broken''),
     (''trickster->shamanic'', ''bridge.taboo_place_opens''),
     (''thriller->horror'', ''bridge.dark_turn''),
     (''horror->thriller'', ''bridge.fight_or_flee''),
     (''fairytale->trickster'', ''bridge.rule_bent''),
     (''trickster->fairytale'', ''bridge.bargain_matures'')]"

record palette =
  movement :: "string list"
  environment :: "string list"
  challenge :: "string list"
  support :: "string list"
  maintenance :: "string list"
  reflection :: "string list"

fun PALETTE :: "regime \<Rightarrow> palette" where
  "PALETTE Horror =
     \<lparr>movement = [''fn.road_walk'', ''fn.trail_cut'', ''fn.descend''],
      environment = [''fn.noise_far'', ''fn.light_fails'', ''fn.smell_metallic''],
      challenge = [''fn.stalked'', ''fn.wrong_place'', ''fn.near_miss''],
      support = [''fn.find_marker''],
      maintenance = [''fn.repack'', ''fn.eat''],
      reflection = [''fn.breath_held'']\<rparr>"
| "PALETTE Trickster =
     \<lparr>movement = [''fn.road_walk'', ''fn.trail_cut'', ''fn.crossing''],
      environment = [''fn.sign_confusing'', ''fn.double_identity''],
      challenge = [''fn.misdirection'', ''fn.lost_item'', ''fn.bad_bargain''],
      support = [''fn.find_marker'', ''fn.stranger_hint''],
      maintenance = [''fn.repack'', ''fn.eat''],
      reflection = [''fn.joke_turns'']\<rparr>"
| "PALETTE Thriller =
     \<lparr>movement = [''fn.ascend'', ''fn.descend'', ''fn.road_walk''],
      environment = [''fn.noise_close'', ''fn.weather_shift'', ''fn.light_change''],
      challenge = [''fn.chase'', ''fn.obstacle'', ''fn.cross_danger''],
      support = [''fn.aid_sign'', ''fn.memory_map''],
      maintenance = [''fn.repair_boot'', ''fn.eat''],
      reflection = [''fn.count_distance'']\<rparr>"
| "PALETTE Fairytale =
     \<lparr>movement = [''fn.trail_cut'', ''fn.crossing'', ''fn.road_walk''],
      environment = [''fn.feast_smell'', ''fn.lanterns'', ''fn.strange_music''],
      challenge = [''fn.rule_presented'', ''fn.giant_block'', ''fn.trial_riddle''],
      support = [''fn.helper_offers'', ''fn.gift_small''],
      maintenance = [''fn.repack'', ''fn.eat''],
      reflection = [''fn.promise_made'']\<rparr>"
| "PALETTE Shamanic =
     \<lparr>movement = [''fn.descend'', ''fn.crossing'', ''fn.road_walk''],
      environment = [''fn.breath_current'', ''fn.stone_names'', ''fn.bone_orchard''],
      challenge = [''fn.ordeal_dark'', ''fn.name_turns'', ''fn.river_black''],
      support = [''fn.guide_sign'', ''fn.memory_map''],
      maintenance = [''fn.repack'', ''fn.eat''],
      reflection = [''fn.naming'', ''fn.pattern_seen'']\<rparr>"

definition BRIDGE_FNS :: "(string \<times> string) list" where
  "BRIDGE_FNS =
    [(''bridge.underworld_mouth'',
      ''A seam opens in the hillside, breathing cold air. They look at each other and step in.''),
     (''bridge.unreliable_ally'',
      ''The helpful voice on the radio crackles and contradicts itself. They realize it has been leading them in circles.''),
     (''bridge.taboo_broken'',
      ''The feast's host asks them to eat in silence; Jill laughs. Every lantern goes out at once.''),
     (''bridge.taboo_place_opens'',
      ''The prank goes too far; a door in the ground that was never there swings open.''),
     (''bridge.dark_turn'',
      ''The shortcut isn't empty. Shapes move between the columns; they pick up speed.''),
     (''bridge.fight_or_flee'',
      ''The stalker shows himself at last; they sprint and do not look back.''),
     (''bridge.rule_bent'',
      ''The path sign points one way, but the small footprints go the other.''),
     (''bridge.bargain_matures'',
      ''The trick they played earlier finds its balance; a basket sits waiting with their lost map inside.'')]"

subsection \<open>Surface text\<close>

definition SURFACES_FALLBACK :: "(string \<times> string list) list" where
  \<open>SURFACES_FALLBACK =
    [(''fn.road_walk'',
      [''They follow the service road skirting the river.'',
       ''They stay on the hardpack, keeping the turbines behind them.'']),
     (''fn.trail_cut'',
      [''They leave the road and step onto a narrow trail through fir and alder.'',
       ''They slip past the fence and take a maintenance path toward higher ground.'']),
     (''fn.ascend'',
      [''The grade steepens. They take it in short, even climbs.'']),
     (''fn.descend'',
      [''The trail drops into a draw; rocks slide underfoot.'']),
     (''fn.crossing'',
      [''They wade a cold braid of the river, boots slung by their laces.'']),
     (''fn.noise_far'',
      [''Somewhere upslope, something moves when they move; then stops.'']),
     (''fn.noise_close'',
      [''A clatter nearby makes them freeze. When it quiets, they move again.'']),
     (''fn.light_fails'',
      [''Cloud cover thickens. Flashlights make narrow cones in the trees.'']),
     (''fn.light_change'',
      [''The sun slips from behind cloud; the path brightens in patches.'']),
     (''fn.smell_metallic'',
      [''The air smells metallic, as if the dam were still inside the forest.'']),
     (''fn.sign_confusing'',
      [''Two arrows on the same post point opposite directions.'']),
     (''fn.double_identity'',
      [''They greet a traveler who later passes them again from the wrong direction.'']),
     (''fn.weather_shift'',
      [''Rain starts and stops within a minute. A second front is coming.'']),
     (''fn.feast_smell'',
      [''They smell bread and smoke where no houses stand.'']),
     (''fn.lanterns'',
      [''Lanterns swing from low branches, lit from no source they can see.'']),
     (''fn.strange_music'',
      [''Music they cannot place drifts over the creek.'']),
     (''fn.breath_current'',
      [''The tunnel exhales; air moves toward darkness and they follow.'']),
     (''fn.stone_names'',
      [''Jane names the stones as they pass; Jill repeats the names.'']),
     (''fn.bone_orchard'',
      [''White shapes stand in a grove. They do not touch them.'']),
     (''fn.stalked'',
      [''They are being matched step for step. When they stop, it stops.'']),
     (''fn.wrong_place'',
      [''They come into a clearing that should not be here; every path seems new.'']),
     (''fn.near_miss'',
      [''Footing goes, but they catch a trunk and hold until the shake passes.'']),
     (''fn.misdirection'',
      [''A friendly voice points them to a shortcut that loops back on itself.'']),
     (''fn.lost_item'',
      [''They check their packs and find the compass missing.'']),
     (''fn.bad_bargain'',
      [''A trader wants too much for a hint. They walk on.'']),
     (''fn.chase'',
      [''Movement behind becomes pursuit. They run until their breath burns.'']),
     (''fn.obstacle'',
      [''A fallen tree blocks the way; they crawl and pass packs across.'']),
     (''fn.cross_danger'',
      [''They cross a spillway grate one by one, each step sounding hollow.'']),
     (''fn.rule_presented'',
      [''A sign reads: "Do not speak while the bridge is crossed."'']),
     (''fn.giant_block'',
      [''A boulder, too round for this valley, sits squarely on the trail.'']),
     (''fn.trial_riddle'',
      [''A child asks a question that isn't a question. They answer with a nod.'']),
     (''fn.ordeal_dark'',
      [''Without lights, they count steps and turns; the dark equals them.'']),
     (''fn.name_turns'',
      [''A name they used earlier won't work now; they try another.'']),
     (''fn.river_black'',
      [''The river here is black and moving fast; they cross in silence.'']),
     (''fn.find_marker'',
      [''At a fork, a survey marker points east. They mark the map and continue.'']),
     (''fn.aid_sign'',
      [''Fresh paint on an old post shows an arrow where none had been before.'']),
     (''fn.memory_map'',
      [''Jill reconstructs the creek bends from memory, and they correct course.'']),
     (''fn.helper_offers'',
      [''An old woman offers a pebble "for finding your way back." They keep it.'']),
     (''fn.gift_small'',
      [''Under a flat stone, someone left a biscuit wrapped in paper.'']),
     (''fn.guide_sign'',
      [''A white moth waits at the mouth of the tunnel, wings like a small flag.'']),
     (''fn.stranger_hint'',
      [''"Keep left at the fork," a man under the bridge says.'']),
     (''fn.repair_boot'',
      [''They tape a frayed strap and change socks.'']),
     (''fn.eat'',
      [''They split an apple and drink from the thermos.'']),
     (''fn.repack'',
      [''They redistribute weight between the packs and set off again.'']),
     (''fn.breath_held'',
      [''They make a stretch without speaking, counting breaths.'']),
     (''fn.joke_turns'',
      [''A joke from earlier lands wrong; they let it go.'']),
     (''fn.count_distance'',
      [''They estimate they've made four more kilometers since the dam.'']),
     (''fn.promise_made'',
      [''They agree not to enter any building with a second story.'']),
     (''fn.naming'',
      [''They repeat the names for the turns until the names feel right.'']),
     (''fn.pattern_seen'',
      [''The path repeats a pattern of three rises and a bend; they trust it.'']),
     (''fn.call'',
      [''They shoulder their packs and check the map. The road runs east along the river.'']),
     (''fn.threshold_crossing'',
      [''They leave the access road beyond the fence line. The plant hum fades behind them.'']),
     (''fn.return'',
      [''A lane appears between trees. They walk the last hundred meters without a word.''])]\<close>

text \<open>
  One entry of the external surface library (surfaces.json, which is not among the
  sources: the library is a parameter of everything below). A bind that is missing or
  empty is falsy; a missing text is the empty text.
\<close>

record surface =
  sf_function :: "string option"
  sf_mood :: "string option"
  sf_pov :: "string option"
  sf_time :: "string option"
  sf_terrain :: "string option"
  sf_text :: string

definition falsy :: "string option \<Rightarrow> bool" where
  "falsy b = (b = None \<or> b = Some [])"

definition bindsMatch :: "string \<Rightarrow> (string \<rightharpoonup> string) \<Rightarrow> surface \<Rightarrow> bool" where
  "bindsMatch fn ncv s =
    (sf_function s = Some fn \<and>
     (falsy (sf_mood s) \<or> sf_mood s = ncv ''mood'') \<and>
     (falsy (sf_pov s) \<or> sf_pov s = ncv ''pov'') \<and>
     (falsy (sf_time s) \<or> sf_time s = ncv ''time'') \<and>
     (falsy (sf_terrain s) \<or> sf_terrain s = ncv ''terrain''))"

definition pickSurfaceText :: "surface list \<Rightarrow> string \<Rightarrow> (string \<rightharpoonup> string) \<Rightarrow> string" where
  "pickSurfaceText surfaces fn ncv =
    (case filter (bindsMatch fn ncv) surfaces of
       c # _ \<Rightarrow> sf_text c
     | [] \<Rightarrow>
         (case map_of SURFACES_FALLBACK fn of
            Some (l # _) \<Rightarrow> l
          | _ \<Rightarrow>
              (case find (\<lambda>s. sf_function s = Some fn) surfaces of
                 Some l \<Rightarrow> sf_text l
               | None \<Rightarrow> [])))"

subsection \<open>Beat preconditions and effects\<close>

record beatrule =
  needs :: "string list option"
  gives :: "string list option"

definition BEAT_RULES :: "(string \<times> beatrule) list" where
  "BEAT_RULES =
    [(''fn.trail_cut'', \<lparr>needs = Some [''left_road''], gives = Some [''in_trail'']\<rparr>),
     (''fn.road_walk'', \<lparr>needs = None, gives = Some [''on_road'']\<rparr>),
     (''fn.crossing'', \<lparr>needs = Some [''in_trail''], gives = Some [''wet'']\<rparr>),
     (''fn.ascend'', \<lparr>needs = Some [''in_trail''], gives = Some [''high_ground'']\<rparr>),
     (''fn.descend'', \<lparr>needs = Some [''in_trail''], gives = Some []\<rparr>),
     (''fn.light_fails'', \<lparr>needs = None, gives = Some [''low_light'']\<rparr>),
     (''fn.noise_close'', \<lparr>needs = None, gives = Some [''alert'']\<rparr>),
     (''fn.stalked'', \<lparr>needs = Some [''low_light''], gives = Some [''pursued'']\<rparr>),
     (''fn.obstacle'', \<lparr>needs = Some [''in_trail''], gives = Some [''detour'']\<rparr>),
     (''fn.cross_danger'', \<lparr>needs = Some [''wet''], gives = Some [''shaken'']\<rparr>),
     (''fn.ordeal_dark'', \<lparr>needs = Some [''low_light''], gives = Some [''ordeal'']\<rparr>),
     (''fn.find_marker'', \<lparr>needs = Some [''in_trail''], gives = Some [''oriented'']\<rparr>),
     (''fn.repair_boot'', \<lparr>needs = Some [''shaken''], gives = Some [''steadied'']\<rparr>),
     (''fn.eat'', \<lparr>needs = None, gives = Some [''fed'']\<rparr>),
     (''fn.repack'', \<lparr>needs = None, gives = Some [''ordered'']\<rparr>),
     (''fn.call'', \<lparr>needs = None, gives = Some [''left_road'']\<rparr>),
     (''fn.threshold_crossing'', \<lparr>needs = Some [''on_road''], gives = Some [''in_trail'']\<rparr>),
     (''fn.return'', \<lparr>needs = None, gives = Some [''approach'']\<rparr>)]"

definition needsOf :: "string \<Rightarrow> string list option" where
  "needsOf fn = (case map_of BEAT_RULES fn of None \<Rightarrow> None | Some r \<Rightarrow> needs r)"

definition givesOf :: "string \<Rightarrow> string list option" where
  "givesOf fn = (case map_of BEAT_RULES fn of None \<Rightarrow> None | Some r \<Rightarrow> gives r)"

definition hasAll :: "string set \<Rightarrow> string list option \<Rightarrow> bool" where
  "hasAll tokens ns = (case ns of None \<Rightarrow> True | Some ts \<Rightarrow> list_all (\<lambda>t. t \<in> tokens) ts)"

definition applyGives :: "string set \<Rightarrow> string list option \<Rightarrow> string set" where
  "applyGives tokens gs = (case gs of None \<Rightarrow> tokens | Some ts \<Rightarrow> foldl (\<lambda>T t. insert t T) tokens ts)"

subsection \<open>Regime classifier\<close>

type_synonym weights = "regime \<Rightarrow> jsnum"

text \<open>The argument is a partial record: a regime left out counts as 0.\<close>

definition normalizeWeights :: "(regime \<Rightarrow> jsnum option) \<Rightarrow> weights" where
  "normalizeWeights w =
    (let out = (\<lambda>k. case w k of None \<Rightarrow> Fin 0 | Some v \<Rightarrow> v);
         sum = foldl (\<lambda>a k. jadd a (orZero (out k))) (Fin 0) REGIME_LIST
     in if jle sum (Fin 0) then (\<lambda>k. Fin 0.2) else (\<lambda>k. jdiv (out k) sum))"

definition tagOr :: "string option \<Rightarrow> string" where
  "tagOr t = (case t of None \<Rightarrow> [] | Some x \<Rightarrow> x)"

definition instantContrib :: "state \<Rightarrow> regime \<Rightarrow> real" where
  "instantContrib s k =
    (let varSeis = optOrZero (st_var s ''seismic'');
         varTilt = optOrZero (st_var s ''tilt'');
         trendSeis = optOrZero (st_trend s ''seismic'');
         tiltBin = tagOr (st_bins s ''tilt'');
         tempBin = tagOr (st_bins s ''temp'');
         mood = tagOr (st_NCV s ''mood'');
         pace = tagOr (st_NCV s ''pace'')
     in case k of
          Horror \<Rightarrow>
            (if jgt varSeis (Fin 0.006) then 1 else 0)
            + (if tempBin = ''cool'' then 0.3 else 0)
            + (if mood = ''strained'' then 0.5 else 0)
        | Trickster \<Rightarrow>
            (if jgt varTilt (Fin 0.0008) then 0.6 else 0)
            + (if pace = ''steady'' then 0.3 else 0)
            + (if tiltBin = ''shift'' then 0.3 else 0)
        | Thriller \<Rightarrow>
            (if jgt varSeis (Fin 0.004) then 0.7 else 0)
            + (if jgt trendSeis (Fin 0.01) then 0.5 else 0)
            + (if pace = ''fast'' then 0.3 else 0)
        | Fairytale \<Rightarrow>
            (if jlt varSeis (Fin 0.002) then 0.7 else 0)
            + (if pace = ''calm'' then 0.3 else 0)
        | Shamanic \<Rightarrow>
            (if tiltBin = ''shear'' then 0.7 else 0)
            + (if tempBin = ''warm'' then 0.2 else 0.1)
            + (if jlt trendSeis (Fin (- 0.01)) then 0.3 else 0))"

definition instantRegimeWeights :: "state \<Rightarrow> weights" where
  "instantRegimeWeights s = normalizeWeights (\<lambda>k. Some (Fin (instantContrib s k)))"

definition mixWeights :: "weights \<Rightarrow> weights \<Rightarrow> jsnum \<Rightarrow> weights" where
  "mixWeights prev now inertia =
    normalizeWeights (\<lambda>k. Some (jadd (jmul inertia (prev k)) (jmul (jsub (Fin 1) inertia) (now k))))"

definition topRegime :: "weights \<Rightarrow> regime" where
  "topRegime w = foldl (\<lambda>best k. if jgt (w k) (w best) then k else best) (hd REGIME_LIST) REGIME_LIST"

definition allowedBridge :: "regime \<Rightarrow> regime \<Rightarrow> string option" where
  "allowedBridge prev nxt =
    (if prev = nxt then None
     else (case map_of ALLOWED_BRIDGES (regimeName prev @ ''->'' @ regimeName nxt) of
             None \<Rightarrow> None
           | Some b \<Rightarrow> if b = [] then None else Some b))"

subsection \<open>Beat selection\<close>

definition inPalette :: "regime \<Rightarrow> string \<Rightarrow> bool" where
  "inPalette regime fn =
    (let p = PALETTE regime
     in fn \<in> set (movement p) \<or> fn \<in> set (environment p) \<or> fn \<in> set (challenge p)
        \<or> fn \<in> set (support p) \<or> fn \<in> set (maintenance p) \<or> fn \<in> set (reflection p))"

definition baseScore :: "regime \<Rightarrow> string \<Rightarrow> real" where
  "baseScore regime fn = (if inPalette regime fn then 1.0 else 0.2)"

definition dataBonus :: "string \<Rightarrow> state \<Rightarrow> real" where
  "dataBonus fn s =
    (let vSeis = optOrZero (st_var s ''seismic'');
         vTilt = optOrZero (st_var s ''tilt'');
         trendSeis = optOrZero (st_trend s ''seismic'');
         lowLight = (st_NCV s ''time'' = Some ''dusk'' \<or> st_NCV s ''time'' = Some ''night'')
     in (if fn = ''fn.stalked'' then (if lowLight then 0.6 else 0.1) else 0)
        + (if fn = ''fn.cross_danger'' then (if jgt vSeis (Fin 0.004) then 0.5 else 0) else 0)
        + (if fn = ''fn.ascend'' then (if jgt vTilt (Fin 0.001) then 0.4 else 0) else 0)
        + (if fn = ''fn.descend'' then (if jlt trendSeis (Fin (- 0.01)) then 0.3 else 0) else 0)
        + (if fn = ''fn.find_marker'' then (if st_bins s ''tilt'' = Some ''shift'' then 0.3 else 0) else 0)
        + (if fn = ''fn.ordeal_dark'' then (if lowLight \<and> jgt vSeis (Fin 0.006) then 0.6 else 0) else 0))"

definition scoreBeat :: "string \<Rightarrow> regime \<Rightarrow> state \<Rightarrow> real" where
  "scoreBeat fn regime s = baseScore regime fn + dataBonus fn s"

text \<open>\<open>Array.from(new Set(xs))\<close>: the first occurrence of each element, in order.\<close>

definition uniq :: "'a list \<Rightarrow> 'a list" where
  "uniq xs = foldl (\<lambda>acc x. if x \<in> set acc then acc else acc @ [x]) [] xs"

definition ALL_BEATS :: "regime \<Rightarrow> string list" where
  "ALL_BEATS regime =
    (let p = PALETTE regime
     in uniq (movement p @ environment p @ challenge p @ support p @ maintenance p @ reflection p))"

text \<open>\<open>xs.slice(-n)\<close>: the last \<open>n\<close> elements.\<close>

definition lastN :: "nat \<Rightarrow> 'a list \<Rightarrow> 'a list" where
  "lastN n xs = drop (length xs - n) xs"

definition cooled :: "string list \<Rightarrow> regime \<Rightarrow> state \<Rightarrow> string \<Rightarrow> real" where
  "cooled recentBeats regime s fn =
    (if fn \<in> set (lastN 4 recentBeats) then scoreBeat fn regime s * 0.4 else scoreBeat fn regime s)"

text \<open>
  The planner. It returns the chosen beats and the token set after their effects; the
  sort is the stable sort of the language, by descending score.
\<close>

definition chooseBeatsPlanned ::
  "regime \<Rightarrow> state \<Rightarrow> string set \<Rightarrow> string list \<Rightarrow> nat \<Rightarrow> string list \<times> string set" where
  "chooseBeatsPlanned regime s tokens recentBeats want =
    (let feasible = filter (\<lambda>fn. hasAll tokens (needsOf fn)) (ALL_BEATS regime);
         scored = sort_key (\<lambda>p. - snd p) (map (\<lambda>fn. (fn, cooled recentBeats regime s fn)) feasible);
         out = take want (map fst scored)
     in (out, foldl (\<lambda>T fn. applyGives T (givesOf fn)) tokens out))"

subsection \<open>Side-quest path\<close>

datatype node = SQ_threshold | SQ_trials | SQ_inmost | SQ_boon | SQ_exit

fun SQ_EDGES :: "node \<Rightarrow> node list" where
  "SQ_EDGES SQ_threshold = [SQ_trials]"
| "SQ_EDGES SQ_trials = [SQ_trials, SQ_inmost]"
| "SQ_EDGES SQ_inmost = [SQ_boon]"
| "SQ_EDGES SQ_boon = [SQ_exit]"
| "SQ_EDGES SQ_exit = []"

text \<open>
  The while loop of \<open>pickSideQuestPath\<close>; the first argument counts the iterations
  left, \<open>steps - i\<close>.
\<close>

fun sqLoop :: "nat \<Rightarrow> nat \<Rightarrow> state list \<Rightarrow> node \<Rightarrow> node list \<Rightarrow> node list" where
  "sqLoop 0 i sList nd path = path"
| "sqLoop (Suc k) i sList nd path =
    (if nd = SQ_exit then path
     else
       (let v = optOrZero (case nth_opt sList (min i (length sList - 1)) of
                             None \<Rightarrow> None | Some s \<Rightarrow> st_var s ''seismic'');
            nxt = (if nd = SQ_trials \<and> jgt v (Fin 0.006) then SQ_inmost
                   else (case SQ_EDGES nd of [] \<Rightarrow> SQ_exit | e # _ \<Rightarrow> e))
        in sqLoop k (Suc i) sList nxt (path @ [nd])))"

definition pickSideQuestPath :: "nat \<Rightarrow> state list \<Rightarrow> node list" where
  "pickSideQuestPath steps sList =
    (let path = sqLoop steps 0 sList SQ_threshold []
     in if SQ_exit \<notin> set path then path @ [SQ_exit] else path)"

subsection \<open>Ledger\<close>

definition ledgerTime :: "nat \<Rightarrow> string" where
  "ledgerTime idx =
    (let timePhase = idx mod 10
     in if timePhase < 3 then ''morning'' else if timePhase < 7 then ''day''
        else if timePhase < 9 then ''dusk'' else ''night'')"

definition ledgerTerrain :: "state \<Rightarrow> string" where
  "ledgerTerrain s =
    (if jgt (optOrZero (st_var s ''seismic'')) (Fin 0.006) then ''rock''
     else if jgt (optOrZero (st_var s ''tilt'')) (Fin 0.001) then ''forest'' else ''road'')"

section \<open>The component (App.tsx)\<close>

text \<open>
  The rows the component works on: the parsed table, cut down to the engaged columns
  when its keys are not all numeric.
\<close>

definition rowsOf :: "string \<Rightarrow> (string \<Rightarrow> bool) \<Rightarrow> row list" where
  "rowsOf rawCSV engaged =
    (let parsed = parseCSV rawCSV;
         keys = (case parsed of [] \<Rightarrow> [] | r # _ \<Rightarrow> map fst r);
         hasHeader = list_ex (\<lambda>k. isNaN (strToNumber k)) keys
     in if \<not> hasHeader then parsed
        else (let cols = filter engaged keys
              in map (\<lambda>r. map (\<lambda>k. (k, field r k)) cols) parsed))"

definition statesOf :: "row list \<Rightarrow> codebook \<Rightarrow> failure + state list" where
  "statesOf rows cb = (if rows = [] then Inr [] else computeStates rows cb)"

definition OPENING :: string where
  "OPENING = ''Jane and Jill break camp at dawn beside the hydroelectric plant, thermoses steaming, turbines droning in the mist.''"

definition CLOSING :: string where
  \<open>CLOSING = ''After several days on the road they reach the cottage at the forest's edge. A silhouetted figure opens the door and says, "Are you ready?"''\<close>

text \<open>\<open>a || b\<close> on texts.\<close>

definition orElse :: "string \<Rightarrow> string \<Rightarrow> string" where
  "orElse a b = (if a \<noteq> [] then a else b)"

definition callLine :: "surface list \<Rightarrow> string" where
  "callLine surfaces =
    orElse (pickSurfaceText surfaces ''fn.call'' [''mood'' \<mapsto> ''reflective''])
      ''They shoulder their packs and check the map.''"

definition returnLine :: "surface list \<Rightarrow> string" where
  "returnLine surfaces =
    orElse (pickSurfaceText surfaces ''fn.return'' Map.empty)
      ''A lane appears between trees. They walk the last hundred meters without a word.''"

text \<open>
  The variables of one generation run. \<open>run_planned\<close> is a history variable that the
  source does not keep: every beat the planner has chosen so far, in order (the source's
  \<open>recentBeats\<close> holds the last 16 of them).
\<close>

record run =
  run_out :: "string list"
  run_weights :: weights
  run_regime :: regime
  run_tokens :: "string set"
  run_recent :: "string list"
  run_planned :: "string list"

text \<open>\<open>if (line) out.push(line)\<close>.\<close>

definition pushLine :: "string \<Rightarrow> string list \<Rightarrow> string list" where
  "pushLine line out = (if line \<noteq> [] then out @ [line] else out)"

text \<open>\<open>recentBeats.push(fn); if (recentBeats.length > 16) recentBeats.shift()\<close>.\<close>

definition remember :: "string \<Rightarrow> string list \<Rightarrow> string list" where
  "remember fn recent = (let r = recent @ [fn] in if 16 < length r then tl r else r)"

definition emitBeat :: "surface list \<Rightarrow> (string \<rightharpoonup> string) \<Rightarrow> run \<Rightarrow> string \<Rightarrow> run" where
  "emitBeat surfaces ncv r fn =
    r\<lparr>run_out := pushLine (pickSurfaceText surfaces fn ncv) (run_out r),
      run_recent := remember fn (run_recent r),
      run_planned := run_planned r @ [fn]\<rparr>"

definition emitIntent :: "surface list \<Rightarrow> (string \<rightharpoonup> string) \<Rightarrow> run \<Rightarrow> string \<Rightarrow> run" where
  "emitIntent surfaces ncv r fn = r\<lparr>run_out := pushLine (pickSurfaceText surfaces fn ncv) (run_out r)\<rparr>"

text \<open>The bridge line; every allowed bridge has a sentence, an undefined one would show empty.\<close>

definition bridgeLine :: "string \<Rightarrow> string" where
  "bridgeLine b = (case map_of BRIDGE_FNS b of None \<Rightarrow> [] | Some l \<Rightarrow> l)"

definition steer :: "nat \<Rightarrow> nat \<Rightarrow> nat \<Rightarrow> node list \<Rightarrow> regime \<Rightarrow> regime" where
  "steer i sqStart sqEnd sqPath regime =
    (if sqStart \<le> i \<and> i < sqEnd then
       (case nth_opt sqPath (i - sqStart) of
          None \<Rightarrow> regime
        | Some nd \<Rightarrow>
            if nd = SQ_inmost then Shamanic
            else if nd = SQ_trials \<and> regime = Fairytale then Trickster
            else regime)
     else regime)"

text \<open>The state with the ledger's time and terrain merged into its NCV tags.\<close>

definition withLedger :: "nat \<Rightarrow> state \<Rightarrow> state" where
  "withLedger i s = s\<lparr>st_NCV := (st_NCV s)(''time'' \<mapsto> ledgerTime i, ''terrain'' \<mapsto> ledgerTerrain s)\<rparr>"

text \<open>The regime the classifier gives a step, before the side-quest steering.\<close>

definition classified :: "run \<Rightarrow> state \<Rightarrow> regime" where
  "classified r s = topRegime (mixWeights (run_weights r) (instantRegimeWeights s) (Fin 0.7))"

text \<open>One iteration of the loop over the states.\<close>

definition genStep ::
  "surface list \<Rightarrow> string list list \<Rightarrow> nat \<Rightarrow> nat \<Rightarrow> node list \<Rightarrow> nat \<Rightarrow> state \<Rightarrow> run \<Rightarrow> run" where
  "genStep surfaces intents sqStart sqEnd sqPath i s0 r =
    (let s = withLedger i s0;
         mixed = mixWeights (run_weights r) (instantRegimeWeights s) (Fin 0.7);
         regime0 = topRegime mixed;
         r1 = (case allowedBridge (run_regime r) regime0 of
                 None \<Rightarrow> r
               | Some b \<Rightarrow> r\<lparr>run_out := run_out r @ [bridgeLine b]\<rparr>);
         regime = steer i sqStart sqEnd sqPath regime0;
         (beats, toks) = chooseBeatsPlanned regime s (run_tokens r1) (run_recent r1) 3;
         r2 = foldl (emitBeat surfaces (st_NCV s)) (r1\<lparr>run_tokens := toks\<rparr>) beats;
         extra = take 1 (case nth_opt intents i of None \<Rightarrow> [] | Some fs \<Rightarrow> fs);
         r3 = foldl (emitIntent surfaces (st_NCV s)) r2 extra
     in r3\<lparr>run_weights := mixed, run_regime := regime\<rparr>)"

fun genLoop ::
  "surface list \<Rightarrow> string list list \<Rightarrow> nat \<Rightarrow> nat \<Rightarrow> node list \<Rightarrow> nat \<Rightarrow> state list \<Rightarrow> run \<Rightarrow> run" where
  "genLoop surfaces intents sqStart sqEnd sqPath i [] r = r"
| "genLoop surfaces intents sqStart sqEnd sqPath i (s # ss) r =
     genLoop surfaces intents sqStart sqEnd sqPath (Suc i) ss
       (genStep surfaces intents sqStart sqEnd sqPath i s r)"

definition uniform :: weights where
  "uniform = (\<lambda>k. Fin 0.2)"

definition seedTokens :: "string set" where
  "seedTokens = {''left_road''}"

definition initRun :: "surface list \<Rightarrow> run" where
  "initRun surfaces =
    \<lparr>run_out = [OPENING, callLine surfaces], run_weights = uniform, run_regime = topRegime uniform,
     run_tokens = seedTokens, run_recent = [], run_planned = []\<rparr>"

definition sqStartOf :: "nat \<Rightarrow> nat" where
  "sqStartOf n = nat \<lfloor>real n * 0.15\<rfloor>"

definition sqEndOf :: "nat \<Rightarrow> nat" where
  "sqEndOf n = nat \<lfloor>real n * 0.85\<rfloor>"

text \<open>The run over all states, up to the end of the loop.\<close>

definition runOf :: "surface list \<Rightarrow> string list list \<Rightarrow> state list \<Rightarrow> run" where
  "runOf surfaces intents states =
    (let sqStart = sqStartOf (length states); sqEnd = sqEndOf (length states);
         sqPath = pickSideQuestPath (max 1 (sqEnd - sqStart)) (take (sqEnd - sqStart) (drop sqStart states))
     in genLoop surfaces intents sqStart sqEnd sqPath 0 states (initRun surfaces))"

text \<open>\<open>onGenerate\<close>: the status "No data detected", or the narrative.\<close>

definition onGenerate :: "surface list \<Rightarrow> string list list \<Rightarrow> row list \<Rightarrow> state list \<Rightarrow> failure + string list" where
  "onGenerate surfaces intents rows states =
    (if rows = [] then Inl NoData
     else Inr (run_out (runOf surfaces intents states) @ [returnLine surfaces, CLOSING]))"

text \<open>
  The component from its inputs to the narrative: the surface library, the evaluator of
  threshold expressions, the active codebook, the text of the table and the engaged
  columns. A failure of \<open>computeStates\<close> happens while rendering, before any click.
\<close>

definition generate ::
  "surface list \<Rightarrow> evaluator \<Rightarrow> codebook \<Rightarrow> string \<Rightarrow> (string \<Rightarrow> bool) \<Rightarrow> failure + string list" where
  "generate surfaces ev cb rawCSV engaged =
    (let rows = rowsOf rawCSV engaged
     in case statesOf rows cb of
          Inl e \<Rightarrow> Inl e
        | Inr states \<Rightarrow> onGenerate surfaces (map (\<lambda>s. selectFunctions ev s cb) states) rows states)"

subsection \<open>The geology preset\<close>


definition geologyEngaged :: "string \<Rightarrow> bool" where
  "geologyEngaged k = (k \<in> set [''seismic'', ''tilt'', ''gas_flux'', ''temp''])"

subsection \<open>Parts of a step, named\<close>

text \<open>
  The sub-expressions of one loop iteration, under names the statements below can use:
  the set of a needs or gives list, the regime after steering, the beats the planner
  returns, the bridge line and the threshold-rule beats of the step, and the lines that
  a list of beat identifiers puts on the output.
\<close>

definition optSet :: "string list option \<Rightarrow> string set" where
  "optSet ts = (case ts of None \<Rightarrow> {} | Some xs \<Rightarrow> set xs)"

definition needsSet :: "string \<Rightarrow> string set" where
  "needsSet fn = optSet (needsOf fn)"

definition givesSet :: "string \<Rightarrow> string set" where
  "givesSet fn = optSet (givesOf fn)"

definition stepRegime :: "nat \<Rightarrow> nat \<Rightarrow> node list \<Rightarrow> nat \<Rightarrow> state \<Rightarrow> run \<Rightarrow> regime" where
  "stepRegime sqStart sqEnd sqPath i s0 r = steer i sqStart sqEnd sqPath (classified r (withLedger i s0))"

definition stepBeats :: "nat \<Rightarrow> nat \<Rightarrow> node list \<Rightarrow> nat \<Rightarrow> state \<Rightarrow> run \<Rightarrow> string list" where
  "stepBeats sqStart sqEnd sqPath i s0 r =
    fst (chooseBeatsPlanned (stepRegime sqStart sqEnd sqPath i s0 r) (withLedger i s0)
           (run_tokens r) (run_recent r) 3)"

definition stepBridge :: "nat \<Rightarrow> state \<Rightarrow> run \<Rightarrow> string list" where
  "stepBridge i s0 r =
    (case allowedBridge (run_regime r) (classified r (withLedger i s0)) of
       None \<Rightarrow> []
     | Some b \<Rightarrow> [bridgeLine b])"

definition stepIntents :: "string list list \<Rightarrow> nat \<Rightarrow> string list" where
  "stepIntents intents i = take 1 (case nth_opt intents i of None \<Rightarrow> [] | Some fs \<Rightarrow> fs)"

definition textLines :: "surface list \<Rightarrow> (string \<rightharpoonup> string) \<Rightarrow> string list \<Rightarrow> string list" where
  "textLines surfaces ncv fns = filter (\<lambda>l. l \<noteq> []) (map (\<lambda>fn. pickSurfaceText surfaces fn ncv) fns)"

subsection \<open>Predicates on weights and on runs\<close>




text \<open>A partial record of finite numbers, the number it gives a regime, and their total.\<close>

definition finiteInput :: "(regime \<Rightarrow> jsnum option) \<Rightarrow> bool" where
  "finiteInput w = list_all (\<lambda>k. case w k of None \<Rightarrow> True | Some v \<Rightarrow> isFinite v) REGIME_LIST"

definition valueOf :: "(regime \<Rightarrow> jsnum option) \<Rightarrow> regime \<Rightarrow> real" where
  "valueOf w k = (case w k of Some (Fin x) \<Rightarrow> x | _ \<Rightarrow> 0)"

definition total :: "(regime \<Rightarrow> jsnum option) \<Rightarrow> real" where
  "total w = sum_list (map (valueOf w) REGIME_LIST)"




text \<open>Every tracked channel of the codebook has a bin list with at least one bin.\<close>

definition binsComplete :: "codebook \<Rightarrow> bool" where
  "binsComplete cb = (\<forall>ch \<in> set (channels cb). \<exists>bs. map_of (cb_bins cb) ch = Some bs \<and> bs \<noteq> [])"

subsection \<open>Concrete inputs\<close>

text \<open>
  The codebooks of the presets are JSON files that are not among the sources. The
  concrete instances below use this codebook: the four geology channels, a window of 5,
  and bins whose ids are none of the tags the classifier looks for.
\<close>

definition exampleCodebook :: codebook where
  "exampleCodebook =
    \<lparr>entity = ''geology'',
     channels = [''seismic'', ''tilt'', ''gas_flux'', ''temp''],
     cb_windows = Some \<lparr>w_trend = Some 5, w_variance = Some 5\<rparr>,
     cb_bins =
       [(''seismic'', [\<lparr>bin_id = ''quiet'', bin_max = 0.005\<rparr>, \<lparr>bin_id = ''active'', bin_max = 1\<rparr>]),
        (''tilt'', [\<lparr>bin_id = ''level'', bin_max = 1\<rparr>]),
        (''gas_flux'', [\<lparr>bin_id = ''flux'', bin_max = 1000\<rparr>]),
        (''temp'', [\<lparr>bin_id = ''mild'', bin_max = 100\<rparr>])],
     cb_ncv = Some [],
     cb_functions = None\<rparr>"

text \<open>The first two data rows of the geology sample, as parsed.\<close>

definition exampleRows :: "row list" where
  "exampleRows =
    [[(''seismic'', VNum (Fin 0.005)), (''tilt'', VNum (Fin 0.02)), (''gas_flux'', VNum (Fin 400)), (''temp'', VNum (Fin 85))],
     [(''seismic'', VNum (Fin 0.006)), (''tilt'', VNum (Fin 0.02)), (''gas_flux'', VNum (Fin 405)), (''temp'', VNum (Fin 86))]]"

text \<open>A surface library whose entries for three beats have an empty text.\<close>

definition silentSurfaces :: "surface list" where
  "silentSurfaces =
    map (\<lambda>fn. \<lparr>sf_function = Some fn, sf_mood = None, sf_pov = None, sf_time = None,
                sf_terrain = None, sf_text = []\<rparr>)
      [''fn.trail_cut'', ''fn.road_walk'', ''fn.feast_smell'']"

text \<open>
  The instantaneous weights of a state with no variance, no trend and none of the tags
  the classifier looks for, and the running vectors in which fairytale leads.
\<close>

definition quietWeights :: weights where
  "quietWeights = (\<lambda>k. if k = Fairytale then Fin 0.875 else if k = Shamanic then Fin 0.125 else Fin 0)"

definition fairyLeads :: "weights \<Rightarrow> bool" where
  "fairyLeads w = (\<exists>f. w = (\<lambda>k. Fin (f k)) \<and> (\<forall>k. 0 \<le> f k \<and> f k \<le> f Fairytale))"

text \<open>The side-quest path of a run of four states without seismic variance.\<close>

definition quietPath :: "node list" where
  "quietPath = [SQ_threshold, SQ_trials, SQ_trials, SQ_exit]"

text \<open>
  The run over four states of empty rows (no variance, no trend, no tags) after its
  first \<open>k\<close> steps: the slice of the side quest is steps 0 to 2, along \<open>quietPath\<close>.
\<close>

fun quietRun :: "nat \<Rightarrow> run" where
  "quietRun 0 = initRun []"
| "quietRun (Suc k) = genStep [] [] 0 3 quietPath k (emptyState []) (quietRun k)"

section \<open>Properties of the table parser and the state deriver\<close>

lemma splitOn_nonempty: "splitOn c s \<noteq> []"
  by (induction s) (auto split: list.splits)

lemma binValue_ok: "bs \<noteq> [] \<Longrightarrow> \<exists>b. binValue (Some bs) v = Inr b"
  by (simp add: binValue_def split: option.splits)




lemma channelLoop_total:
  "\<forall>ch \<in> set chs. \<exists>bs. map_of (cb_bins cb) ch = Some bs \<and> bs \<noteq> [] \<Longrightarrow>
   \<exists>s'. channelLoop rows idx win cb r chs s = Inr s'"
proof (induction chs arbitrary: s)
  case Nil
  then show ?case by simp
next
  case (Cons c chs)
  then obtain bs where bs: "map_of (cb_bins cb) c = Some bs" "bs \<noteq> []" by auto
  obtain b where b: "binValue (Some bs) (orZero (toNumber (field r c))) = Inr b"
    using binValue_ok [OF bs(2)] by blast
  show ?case using Cons bs b by (simp add: Let_def)
qed

lemma channelLoop_missing:
  "ch \<in> set chs \<Longrightarrow> map_of (cb_bins cb) ch = None \<Longrightarrow>
   channelLoop rows idx win cb r chs s = Inl TypeError"
proof (induction chs arbitrary: s)
  case Nil
  then show ?case by simp
next
  case (Cons c chs)
  show ?case
  proof (cases "binValue (map_of (cb_bins cb) c) (orZero (toNumber (field r c)))")
    case (Inl e)
    then have "e = TypeError" by (cases e) (auto simp: binValue_def split: option.splits if_splits)
    with Inl show ?thesis by simp
  next
    case (Inr b)
    then have "c \<noteq> ch" using Cons.prems by (auto simp: binValue_def)
    with Inr Cons show ?thesis by (simp add: Let_def)
  qed
qed



lemma stateOf_total:
  "\<forall>ch \<in> set (channels cb). \<exists>bs. map_of (cb_bins cb) ch = Some bs \<and> bs \<noteq> [] \<Longrightarrow>
   \<exists>s. stateOf rows win cb idx r = Inr s"
  using channelLoop_total [of "channels cb" cb rows idx win r "emptyState r"]
  by (auto simp: stateOf_def Let_def)

lemma mapRows_nth:
  "mapRows f k rows = Inr ss \<Longrightarrow>
   length ss = length rows \<and> (\<forall>i < length rows. f (k + i) (rows ! i) = Inr (ss ! i))"
proof (induction rows arbitrary: k ss)
  case Nil
  then show ?case by simp
next
  case (Cons r rows)
  from Cons.prems obtain s ss' where s: "f k r = Inr s" and ss': "mapRows f (Suc k) rows = Inr ss'"
    and ss: "ss = s # ss'"
    by (auto split: sum.splits)
  from Cons.IH [OF ss'] have len: "length ss' = length rows"
    and nth: "\<And>i. i < length rows \<Longrightarrow> f (Suc k + i) (rows ! i) = Inr (ss' ! i)" by auto
  show ?case
  proof (intro conjI allI impI)
    show "length ss = length (r # rows)" using len ss by simp
    fix i assume "i < length (r # rows)"
    then show "f (k + i) ((r # rows) ! i) = Inr (ss ! i)"
      using s ss nth by (cases i) auto
  qed
qed

lemma mapRows_total:
  "(\<And>i r. \<exists>s. f i r = Inr s) \<Longrightarrow> \<exists>ss. mapRows f k rows = Inr ss"
proof (induction rows arbitrary: k)
  case Nil
  then show ?case by simp
next
  case (Cons r rows)
  obtain s where "f k r = Inr s" using Cons.prems by blast
  moreover obtain ss where "mapRows f (Suc k) rows = Inr ss" using Cons by blast
  ultimately show ?case by simp
qed

lemma mapRows_fail_first:
  "(\<And>i r. f i r = Inl e) \<Longrightarrow> rows \<noteq> [] \<Longrightarrow> mapRows f k rows = Inl e"
  by (cases rows) auto

lemma computeStates_total:
  assumes "\<forall>ch \<in> set (channels cb). \<exists>bs. map_of (cb_bins cb) ch = Some bs \<and> bs \<noteq> []"
  shows "\<exists>ss. computeStates rows cb = Inr ss \<and> length ss = length rows"
proof -
  obtain ss where ss: "mapRows (stateOf rows (windowOf cb) cb) 0 rows = Inr ss"
    using mapRows_total [of "stateOf rows (windowOf cb) cb" 0 rows] stateOf_total [OF assms] by blast
  then show ?thesis using mapRows_nth [OF ss] by (simp add: computeStates_def)
qed

lemma computeStates_missing:
  assumes "rows \<noteq> []" and "ch \<in> set (channels cb)" and "map_of (cb_bins cb) ch = None"
  shows "computeStates rows cb = Inl TypeError"
proof -
  have "\<And>i r. stateOf rows (windowOf cb) cb i r = Inl TypeError"
    using channelLoop_missing [OF assms(2,3)] by (simp add: stateOf_def)
  then show ?thesis using assms(1) by (simp add: computeStates_def mapRows_fail_first)
qed



lemma exampleCodebook_bins:
  "\<forall>ch \<in> set (channels exampleCodebook). \<exists>bs. map_of (cb_bins exampleCodebook) ch = Some bs \<and> bs \<noteq> []"
  by (simp add: exampleCodebook_def)



text \<open>
  Claim C3. The claim says that \<open>computeStates\<close> does not fail when a tracked channel
  has no entry in \<open>bins\<close>. On the code it fails: with at least one row, iterating the
  missing bin list throws a TypeError and no state is produced.
\<close>

theorem missing_bins_throw:
  "rows \<noteq> [] \<Longrightarrow> ch \<in> set (channels cb) \<Longrightarrow> map_of (cb_bins cb) ch = None \<Longrightarrow>
   computeStates rows cb = Inl TypeError"
proof -
  assume rows: "rows \<noteq> []" and ch: "ch \<in> set (channels cb)"
    and none: "map_of (cb_bins cb) ch = None"
  have "\<And>i r. channelLoop rows i (windowOf cb) cb r (channels cb) (emptyState r) = Inl TypeError"
    using ch none by (rule channelLoop_missing)
  then have every: "\<And>i r. stateOf rows (windowOf cb) cb i r = Inl TypeError"
    by (simp add: stateOf_def)
  obtain r rs where "rows = r # rs" using rows by (cases rows) auto
  then show "computeStates rows cb = Inl TypeError"
    using every by (simp add: computeStates_def)
qed

theorem missing_bins_throw_witness:
  "exampleRows \<noteq> [] \<and> ''seismic'' \<in> set (channels (exampleCodebook\<lparr>cb_bins := []\<rparr>))
   \<and> map_of (cb_bins (exampleCodebook\<lparr>cb_bins := []\<rparr>)) ''seismic'' = None
   \<and> computeStates exampleRows (exampleCodebook\<lparr>cb_bins := []\<rparr>) = Inl TypeError"
proof -
  have a: "exampleRows \<noteq> []" by (simp add: exampleRows_def)
  have b: "''seismic'' \<in> set (channels (exampleCodebook\<lparr>cb_bins := []\<rparr>))"
    by (simp add: exampleCodebook_def)
  have c: "map_of (cb_bins (exampleCodebook\<lparr>cb_bins := []\<rparr>)) ''seismic'' = None" by simp
  show ?thesis using a b c missing_bins_throw [OF a b c] by blast
qed

section \<open>Properties of the planner and of one step\<close>

lemma uniq_fold_set:
  "set (foldl (\<lambda>acc x. if x \<in> set acc then acc else acc @ [x]) acc xs) = set acc \<union> set xs"
  by (induction xs arbitrary: acc) auto

lemma set_uniq: "set (uniq xs) = set xs"
  by (simp add: uniq_def uniq_fold_set)

lemma ALL_BEATS_palette: "fn \<in> set (ALL_BEATS regime) \<longleftrightarrow> inPalette regime fn"
  by (auto simp: ALL_BEATS_def inPalette_def set_uniq Let_def)

lemma hasAll_optSet: "hasAll T ns \<longleftrightarrow> optSet ns \<subseteq> T"
  by (auto simp: hasAll_def optSet_def list_all_iff split: option.splits)

lemma insert_fold: "foldl (\<lambda>T t. insert t T) T ts = T \<union> set ts"
  by (induction ts arbitrary: T) auto

lemma applyGives_optSet: "applyGives T gs = T \<union> optSet gs"
  by (simp add: applyGives_def optSet_def insert_fold split: option.splits)

lemma gives_fold: "foldl (\<lambda>T fn. applyGives T (givesOf fn)) T fs = T \<union> (\<Union>fn \<in> set fs. givesSet fn)"
  by (induction fs arbitrary: T) (auto simp: applyGives_optSet givesSet_def)

lemma planner_beats:
  "set (fst (chooseBeatsPlanned regime s T recent want))
     \<subseteq> {fn. inPalette regime fn \<and> needsSet fn \<subseteq> T}"
proof -
  have "set (fst (chooseBeatsPlanned regime s T recent want))
        \<subseteq> set (filter (\<lambda>fn. hasAll T (needsOf fn)) (ALL_BEATS regime))"
    unfolding chooseBeatsPlanned_def Let_def fst_conv
    by (rule subset_trans [OF set_take_subset]) (auto simp: image_iff)
  then show ?thesis
    by (auto simp: ALL_BEATS_palette hasAll_optSet needsSet_def)
qed

lemma planner_tokens:
  "snd (chooseBeatsPlanned regime s T recent want)
     = T \<union> (\<Union>fn \<in> set (fst (chooseBeatsPlanned regime s T recent want)). givesSet fn)"
  by (simp add: chooseBeatsPlanned_def Let_def gives_fold)

lemma planner_length: "length (fst (chooseBeatsPlanned regime s T recent want)) \<le> want"
  by (simp add: chooseBeatsPlanned_def Let_def)

lemma emitBeat_fold:
  "foldl (emitBeat surfaces ncv) r fs =
     r\<lparr>run_out := run_out r @ textLines surfaces ncv fs,
       run_recent := foldl (\<lambda>rec fn. remember fn rec) (run_recent r) fs,
       run_planned := run_planned r @ fs\<rparr>"
  by (induction fs arbitrary: r) (auto simp: emitBeat_def textLines_def pushLine_def)

lemma emitIntent_fold:
  "foldl (emitIntent surfaces ncv) r fs = r\<lparr>run_out := run_out r @ textLines surfaces ncv fs\<rparr>"
  by (induction fs arbitrary: r) (auto simp: emitIntent_def textLines_def pushLine_def)

lemma genStep_eq:
  "genStep surfaces intents sqStart sqEnd sqPath i s0 r =
     \<lparr>run_out = run_out r @ stepBridge i s0 r
                 @ textLines surfaces (st_NCV (withLedger i s0)) (stepBeats sqStart sqEnd sqPath i s0 r)
                 @ textLines surfaces (st_NCV (withLedger i s0)) (stepIntents intents i),
      run_weights = mixWeights (run_weights r) (instantRegimeWeights (withLedger i s0)) (Fin 0.7),
      run_regime = stepRegime sqStart sqEnd sqPath i s0 r,
      run_tokens = run_tokens r \<union> (\<Union>fn \<in> set (stepBeats sqStart sqEnd sqPath i s0 r). givesSet fn),
      run_recent = foldl (\<lambda>rec fn. remember fn rec) (run_recent r) (stepBeats sqStart sqEnd sqPath i s0 r),
      run_planned = run_planned r @ stepBeats sqStart sqEnd sqPath i s0 r\<rparr>"
  unfolding genStep_def Let_def
  by (cases "allowedBridge (run_regime r) (topRegime (mixWeights (run_weights r) (instantRegimeWeights (withLedger i s0)) (Fin 0.7)))")
     (simp_all add: split_beta emitBeat_fold emitIntent_fold stepBridge_def stepBeats_def stepRegime_def
        classified_def stepIntents_def planner_tokens)

lemmas plan_simps = chooseBeatsPlanned_def ALL_BEATS_def uniq_def hasAll_def needsOf_def givesOf_def
  BEAT_RULES_def cooled_def scoreBeat_def baseScore_def inPalette_def dataBonus_def lastN_def
  emptyState_def seedTokens_def applyGives_def Let_def jgt_def

lemma example_plan:
  "chooseBeatsPlanned Horror (emptyState []) seedTokens [] 3
   = ([''fn.road_walk'', ''fn.trail_cut'', ''fn.noise_far''], {''in_trail'', ''on_road'', ''left_road''})"
  by (simp add: plan_simps)

lemma example_plan_next:
  "fst (chooseBeatsPlanned Horror (emptyState []) {''in_trail'', ''on_road'', ''left_road''}
          [''fn.road_walk'', ''fn.trail_cut'', ''fn.noise_far''] 3)
   = [''fn.descend'', ''fn.light_fails'', ''fn.smell_metallic'']"
  by (simp add: plan_simps)

lemma dataBonus_nonneg: "0 \<le> dataBonus fn s"
  by (simp add: dataBonus_def Let_def)

text \<open>
  Claim C1. As stated the claim fails: no state, token set, history or count makes the
  planner return a beat outside the palette of the regime it plans for.
\<close>

theorem no_palette_crossing:
  "\<not> (\<exists>regime s tokens recent want fn.
        fn \<in> set (fst (chooseBeatsPlanned regime s tokens recent want)) \<and> \<not> inPalette regime fn)"
  using planner_beats by blast

text \<open>
  Claim C1, amended. The base score is 1.0 for a beat of the active regime's palette and
  0.2 (never zero) for any other beat, and the data bonuses only add to it; but the
  planner's candidates are the beats of the active regime's palette and nothing else, so
  every beat the planner returns is in that palette and has base score 1.0.
\<close>

theorem planner_stays_in_palette:
  "(\<forall>b \<in> set (fst (chooseBeatsPlanned regime s tokens recent want)).
       inPalette regime b \<and> baseScore regime b = 1)
   \<and> baseScore regime fn = (if inPalette regime fn then 1 else 0.2)
   \<and> baseScore regime fn \<le> scoreBeat fn regime s
   \<and> 0 < scoreBeat fn regime s"
proof (intro conjI ballI)
  fix b assume "b \<in> set (fst (chooseBeatsPlanned regime s tokens recent want))"
  then have "inPalette regime b" using planner_beats by blast
  then show "inPalette regime b" and "baseScore regime b = 1" by (simp_all add: baseScore_def)
next
  show "baseScore regime fn = (if inPalette regime fn then 1 else 0.2)" by (simp add: baseScore_def)
  show "baseScore regime fn \<le> scoreBeat fn regime s"
    using dataBonus_nonneg [of fn s] by (simp add: scoreBeat_def)
  have "0 < baseScore regime fn" by (simp add: baseScore_def)
  then show "0 < scoreBeat fn regime s"
    using dataBonus_nonneg [of fn s] by (simp add: scoreBeat_def)
qed

theorem planner_stays_in_palette_witness:
  "fst (chooseBeatsPlanned Horror (emptyState []) seedTokens [] 3)
     = [''fn.road_walk'', ''fn.trail_cut'', ''fn.noise_far'']
   \<and> inPalette Horror ''fn.trail_cut'' \<and> baseScore Horror ''fn.trail_cut'' = 1
   \<and> baseScore Horror ''fn.crossing'' = 0.2
   \<and> 0 < scoreBeat ''fn.crossing'' Horror (emptyState [])"
proof -
  have e: "fst (chooseBeatsPlanned Horror (emptyState []) seedTokens [] 3)
     = [''fn.road_walk'', ''fn.trail_cut'', ''fn.noise_far'']"
    by (simp add: example_plan)
  have m: "''fn.trail_cut'' \<in> set (fst (chooseBeatsPlanned Horror (emptyState []) seedTokens [] 3))"
    by (simp add: e)
  have n: "\<not> inPalette Horror ''fn.crossing''" by (simp add: inPalette_def)
  show ?thesis
    using e m n
      planner_stays_in_palette [of Horror "emptyState []" seedTokens "[]" 3 "''fn.crossing''"]
    by auto
qed

text \<open>
  Claim C4. As stated the claim fails: the planner never returns a beat with a
  precondition token that is missing from the token set it was called with, so no beat
  of a step is there thanks to a token that an earlier beat of the same step grants.
\<close>

theorem no_same_step_dependency:
  "\<not> (\<exists>regime s tokens recent want xs b1 ys b2 zs t.
        fst (chooseBeatsPlanned regime s tokens recent want) = xs @ b1 # ys @ b2 # zs
        \<and> t \<in> needsSet b2 \<and> t \<in> givesSet b1 \<and> t \<notin> tokens)"
proof
  assume "\<exists>regime s tokens recent want xs b1 ys b2 zs t.
        fst (chooseBeatsPlanned regime s tokens recent want) = xs @ b1 # ys @ b2 # zs
        \<and> t \<in> needsSet b2 \<and> t \<in> givesSet b1 \<and> t \<notin> tokens"
  then obtain regime s tokens recent want xs b1 ys b2 zs t where
    e: "fst (chooseBeatsPlanned regime s tokens recent want) = xs @ b1 # ys @ b2 # zs"
    and t: "t \<in> needsSet b2" "t \<notin> tokens" by blast
  have "b2 \<in> set (fst (chooseBeatsPlanned regime s tokens recent want))" by (simp add: e)
  then have "needsSet b2 \<subseteq> tokens" using planner_beats by blast
  with t show False by blast
qed

text \<open>
  Claim C4, amended. The effect tokens of every beat of a step are added to the shared
  token set, but the feasible beats are fixed against the token set as it stands at the
  start of the step: every beat returned for a step has all its precondition tokens in
  that set, and a granted token can enable a beat from the next step on.
\<close>

theorem feasibility_fixed_at_step_start:
  "(\<forall>b \<in> set (fst (chooseBeatsPlanned regime s tokens recent want)). needsSet b \<subseteq> tokens)
   \<and> snd (chooseBeatsPlanned regime s tokens recent want)
       = tokens \<union> (\<Union>b \<in> set (fst (chooseBeatsPlanned regime s tokens recent want)). givesSet b)
   \<and> (\<forall>b \<in> set (stepBeats sqStart sqEnd sqPath i s0 r). needsSet b \<subseteq> run_tokens r)
   \<and> run_tokens (genStep surfaces intents sqStart sqEnd sqPath i s0 r)
       = run_tokens r \<union> (\<Union>b \<in> set (stepBeats sqStart sqEnd sqPath i s0 r). givesSet b)"
proof (intro conjI ballI)
  fix b assume "b \<in> set (fst (chooseBeatsPlanned regime s tokens recent want))"
  then show "needsSet b \<subseteq> tokens" using planner_beats by blast
next
  show "snd (chooseBeatsPlanned regime s tokens recent want)
       = tokens \<union> (\<Union>b \<in> set (fst (chooseBeatsPlanned regime s tokens recent want)). givesSet b)"
    by (rule planner_tokens)
next
  fix b assume "b \<in> set (stepBeats sqStart sqEnd sqPath i s0 r)"
  then show "needsSet b \<subseteq> run_tokens r" unfolding stepBeats_def using planner_beats by blast
next
  show "run_tokens (genStep surfaces intents sqStart sqEnd sqPath i s0 r)
       = run_tokens r \<union> (\<Union>b \<in> set (stepBeats sqStart sqEnd sqPath i s0 r). givesSet b)"
    by (simp add: genStep_eq)
qed

theorem feasibility_fixed_at_step_start_witness:
  "chooseBeatsPlanned Horror (emptyState []) seedTokens [] 3
     = ([''fn.road_walk'', ''fn.trail_cut'', ''fn.noise_far''], {''in_trail'', ''on_road'', ''left_road''})
   \<and> ''in_trail'' \<in> givesSet ''fn.trail_cut''
   \<and> needsSet ''fn.descend'' = {''in_trail''}
   \<and> inPalette Horror ''fn.descend''
   \<and> needsSet ''fn.trail_cut'' \<subseteq> seedTokens
   \<and> fst (chooseBeatsPlanned Horror (emptyState []) {''in_trail'', ''on_road'', ''left_road''}
            [''fn.road_walk'', ''fn.trail_cut'', ''fn.noise_far''] 3)
       = [''fn.descend'', ''fn.light_fails'', ''fn.smell_metallic'']"
proof -
  have m: "''fn.trail_cut'' \<in> set (fst (chooseBeatsPlanned Horror (emptyState []) seedTokens [] 3))"
    by (simp add: example_plan)
  have "needsSet ''fn.trail_cut'' \<subseteq> seedTokens"
    using feasibility_fixed_at_step_start [of Horror "emptyState []" seedTokens "[]" 3] m by blast
  moreover have "''in_trail'' \<in> givesSet ''fn.trail_cut''"
    by (simp add: givesSet_def givesOf_def optSet_def BEAT_RULES_def)
  moreover have "needsSet ''fn.descend'' = {''in_trail''}"
    by (simp add: needsSet_def needsOf_def optSet_def BEAT_RULES_def)
  moreover have "inPalette Horror ''fn.descend''" by (simp add: inPalette_def)
  ultimately show ?thesis using example_plan example_plan_next by simp
qed

section \<open>Properties of the classifier\<close>

lemma regime_all: "list_all P REGIME_LIST \<longleftrightarrow> (\<forall>k. P k)"
proof
  assume a: "list_all P REGIME_LIST"
  show "\<forall>k. P k"
  proof
    fix k show "P k" using a by (cases k) (simp_all add: REGIME_LIST_def)
  qed
next
  assume "\<forall>k. P k" then show "list_all P REGIME_LIST" by (simp add: list_all_iff)
qed

lemma finiteInput_out:
  assumes "finiteInput w"
  shows "(case w k of None \<Rightarrow> Fin 0 | Some v \<Rightarrow> v) = Fin (valueOf w k)"
proof -
  have "case w k of None \<Rightarrow> True | Some v \<Rightarrow> isFinite v"
    using assms by (simp add: finiteInput_def regime_all)
  then show ?thesis
    by (cases "w k") (auto simp: valueOf_def elim: isFinite.elims)
qed

lemma normalizeWeights_finite:
  assumes "finiteInput w"
  shows "normalizeWeights w = (if total w \<le> 0 then uniform else (\<lambda>k. Fin (valueOf w k / total w)))"
proof -
  have o: "(\<lambda>k. case w k of None \<Rightarrow> Fin 0 | Some v \<Rightarrow> v) = (\<lambda>k. Fin (valueOf w k))"
    using finiteInput_out [OF assms] by (intro ext)
  show ?thesis
    unfolding normalizeWeights_def o Let_def
    by (auto simp: REGIME_LIST_def total_def uniform_def)
qed











section \<open>Properties of a run\<close>

lemma remember_lastN: "length recent \<le> 16 \<Longrightarrow> remember fn recent = lastN 16 (recent @ [fn])"
proof -
  assume "length recent \<le> 16"
  then consider "length recent = 16" | "length recent < 16" by linarith
  then show ?thesis
  proof cases
    case 1
    then have "Suc (length recent) - 16 = Suc 0" and "recent \<noteq> []" by auto
    then show ?thesis using 1 by (simp add: remember_def lastN_def Let_def drop_Suc)
  next
    case 2
    then show ?thesis by (simp add: remember_def lastN_def Let_def)
  qed
qed

lemma lastN_length: "length (lastN n xs) \<le> n"
  by (simp add: lastN_def)

lemma lastN_append: "lastN n (lastN n xs @ ys) = lastN n (xs @ ys)"
proof (cases "length xs \<le> n")
  case True
  then show ?thesis by (simp add: lastN_def)
next
  case False
  then have l: "length (drop (length xs - n) xs) = n" by simp
  have "lastN n (lastN n xs @ ys) = drop (length ys) (drop (length xs - n) xs @ ys)"
    using l by (simp add: lastN_def del: length_drop)
  also have "\<dots> = drop (length ys) (drop (length xs - n) (xs @ ys))"
    using False by simp
  also have "\<dots> = drop (length ys + (length xs - n)) (xs @ ys)"
    by (simp only: drop_drop)
  also have "\<dots> = lastN n (xs @ ys)"
  proof -
    have "length ys + (length xs - n) = length (xs @ ys) - n" using False by simp
    then show ?thesis by (simp only: lastN_def)
  qed
  finally show ?thesis .
qed

lemma remember_fold:
  "length recent \<le> 16 \<Longrightarrow> foldl (\<lambda>rec fn. remember fn rec) recent fs = lastN 16 (recent @ fs)"
proof (induction fs arbitrary: recent)
  case Nil
  then show ?case by (simp add: lastN_def)
next
  case (Cons f fs)
  have r: "remember f recent = lastN 16 (recent @ [f])" using Cons.prems by (rule remember_lastN)
  have l: "length (remember f recent) \<le> 16" by (simp add: r lastN_length)
  show ?case using Cons.IH [OF l] by (simp add: r lastN_append)
qed







subsection \<open>Runs over quiet states\<close>

lemma inst_quiet: "instantRegimeWeights (withLedger i (emptyState row0)) = quietWeights"
proof
  fix k
  show "instantRegimeWeights (withLedger i (emptyState row0)) k = quietWeights k"
    by (cases k)
       (simp_all add: instantRegimeWeights_def normalizeWeights_def instantContrib_def
          REGIME_LIST_def withLedger_def emptyState_def tagOr_def jgt_def quietWeights_def Let_def)
qed

lemma fairyLeads_uniform: "fairyLeads uniform"
  unfolding fairyLeads_def uniform_def by (rule exI [of _ "\<lambda>k. 0.2"]) simp

lemma mix_quiet:
  assumes "fairyLeads w"
  shows "fairyLeads (mixWeights w quietWeights (Fin 0.7))"
    and "topRegime (mixWeights w quietWeights (Fin 0.7)) = Fairytale"
proof -
  obtain f where w: "w = (\<lambda>k. Fin (f k))" and f: "\<And>k. 0 \<le> f k" "\<And>k. f k \<le> f Fairytale"
    using assms unfolding fairyLeads_def by blast
  define q :: "regime \<Rightarrow> real" where
    "q = (\<lambda>k. if k = Fairytale then 0.875 else if k = Shamanic then 0.125 else 0)"
  define g where "g = (\<lambda>k. 0.7 * f k + 0.3 * q k)"
  define T where "T = g Horror + g Trickster + g Thriller + g Fairytale + g Shamanic"
  have inp: "(\<lambda>k. Some (jadd (jmul (Fin 0.7) (w k)) (jmul (jsub (Fin 1) (Fin 0.7)) (quietWeights k))))
           = (\<lambda>k. Some (Fin (g k)))"
    by (intro ext) (simp add: w quietWeights_def jsub_def g_def q_def)
  have fin: "finiteInput (\<lambda>k. Some (Fin (g k)))" by (simp add: finiteInput_def list_all_iff)
  have v: "valueOf (\<lambda>k. Some (Fin (g k))) = g" by (intro ext) (simp add: valueOf_def)
  have tot: "total (\<lambda>k. Some (Fin (g k))) = T" by (simp add: total_def v REGIME_LIST_def T_def)
  have g0: "\<And>k. 0 \<le> g k" using f(1) by (simp add: g_def q_def)
  have gF: "g Fairytale = 0.7 * f Fairytale + 0.2625" by (simp add: g_def q_def)
  have gle: "\<And>k. k \<noteq> Fairytale \<Longrightarrow> g k < g Fairytale"
  proof -
    fix k :: regime assume "k \<noteq> Fairytale"
    then have "q k \<le> 0.125" by (simp add: q_def)
    then have "g k \<le> 0.7 * f k + 0.0375" by (simp add: g_def)
    also have "\<dots> \<le> 0.7 * f Fairytale + 0.0375" using f(2) [of k] by simp
    also have "\<dots> < g Fairytale" by (simp add: gF)
    finally show "g k < g Fairytale" .
  qed
  have Tpos: "0 < T"
    using g0 [of Horror] g0 [of Trickster] g0 [of Thriller] g0 [of Shamanic] f(1) [of Fairytale]
    by (simp add: T_def gF)
  have m: "mixWeights w quietWeights (Fin 0.7) = (\<lambda>k. Fin (g k / T))"
    unfolding mixWeights_def inp using Tpos by (simp add: normalizeWeights_finite [OF fin] tot v)
  have lt: "\<And>k. k \<noteq> Fairytale \<Longrightarrow> g k / T < g Fairytale / T"
    using gle Tpos by (simp add: divide_strict_right_mono)
  show "fairyLeads (mixWeights w quietWeights (Fin 0.7))"
    unfolding fairyLeads_def m
  proof (rule exI [of _ "\<lambda>k. g k / T"], intro conjI allI)
    show "(\<lambda>k. Fin (g k / T)) = (\<lambda>k. Fin (g k / T))" by simp
    fix k show "0 \<le> g k / T" using g0 [of k] Tpos by simp
    show "g k / T \<le> g Fairytale / T"
      using lt [of k] by (cases "k = Fairytale") simp_all
  qed
  show "topRegime (mixWeights w quietWeights (Fin 0.7)) = Fairytale"
    unfolding m topRegime_def REGIME_LIST_def
    using lt [of Horror] lt [of Trickster] lt [of Thriller] lt [of Shamanic]
    by (simp add: jgt_def)
qed

lemma classified_quiet:
  "fairyLeads (run_weights r) \<Longrightarrow> classified r (withLedger i (emptyState row0)) = Fairytale"
  by (simp add: classified_def withLedger_def [symmetric] inst_quiet mix_quiet(2))

lemmas quiet_simps = plan_simps withLedger_def ledgerTime_def ledgerTerrain_def

lemma quiet_plan0:
  "chooseBeatsPlanned Fairytale (withLedger 0 (emptyState [])) seedTokens [] 3
     = ([''fn.trail_cut'', ''fn.road_walk'', ''fn.feast_smell''], {''on_road'', ''in_trail'', ''left_road''})"
  by (simp add: quiet_simps)


lemma initRun_regime: "run_regime (initRun sf) = Horror"
  by (simp add: initRun_def topRegime_def uniform_def REGIME_LIST_def jgt_def)

lemma initRun_fields:
  "run_tokens (initRun sf) = seedTokens" "run_recent (initRun sf) = []"
  "run_planned (initRun sf) = []" "run_weights (initRun sf) = uniform"
  "run_out (initRun sf) = [OPENING, callLine sf]"
  by (simp_all add: initRun_def)



lemma quiet_gives:
  "givesSet ''fn.trail_cut'' = {''in_trail''}" "givesSet ''fn.road_walk'' = {''on_road''}"
  "givesSet ''fn.feast_smell'' = {}" "needsSet ''fn.crossing'' = {''in_trail''}"
  by (simp_all add: givesSet_def needsSet_def givesOf_def needsOf_def optSet_def BEAT_RULES_def)

lemma quiet_step0:
  assumes "sqPath \<noteq> [] \<longrightarrow> hd sqPath = SQ_threshold"
  shows "stepRegime 0 sqEnd sqPath 0 (emptyState []) (initRun sf) = Fairytale"
    and "stepBeats 0 sqEnd sqPath 0 (emptyState []) (initRun sf)
           = [''fn.trail_cut'', ''fn.road_walk'', ''fn.feast_smell'']"
proof -
  have c: "classified (initRun sf) (withLedger 0 (emptyState [])) = Fairytale"
    by (rule classified_quiet) (simp add: initRun_fields fairyLeads_uniform)
  show r: "stepRegime 0 sqEnd sqPath 0 (emptyState []) (initRun sf) = Fairytale"
    using assms by (cases sqPath) (simp_all add: stepRegime_def c steer_def nth_opt_def)
  show "stepBeats 0 sqEnd sqPath 0 (emptyState []) (initRun sf)
           = [''fn.trail_cut'', ''fn.road_walk'', ''fn.feast_smell'']"
    unfolding stepBeats_def r by (simp add: initRun_fields quiet_plan0)
qed



lemma silent_text:
  "fn \<in> set [''fn.trail_cut'', ''fn.road_walk'', ''fn.feast_smell''] \<Longrightarrow>
   pickSurfaceText silentSurfaces fn ncv = []"
  by (auto simp: pickSurfaceText_def silentSurfaces_def bindsMatch_def falsy_def)

lemma textLines_empty:
  "(\<forall>fn \<in> set fns. pickSurfaceText surfaces fn ncv = []) \<Longrightarrow> textLines surfaces ncv fns = []"
  by (induction fns) (simp_all add: textLines_def)

text \<open>
  Claim C10. The beats the planner selects for a step take effect whatever their surface
  text is: their effect tokens are in the token set and the beats are at the end of the
  rolling history (the last 16 beats) and of the list of planned beats after the step,
  and the output gets a line only for a beat whose text is not empty. So a step whose
  beats all resolve to the empty text adds no beat line while tokens and history advance.
\<close>

theorem effects_without_visible_line:
  "run_tokens (genStep surfaces intents sqStart sqEnd sqPath i s0 r)
     = run_tokens r \<union> (\<Union>b \<in> set (stepBeats sqStart sqEnd sqPath i s0 r). givesSet b)
   \<and> run_planned (genStep surfaces intents sqStart sqEnd sqPath i s0 r)
     = run_planned r @ stepBeats sqStart sqEnd sqPath i s0 r
   \<and> run_recent (genStep surfaces intents sqStart sqEnd sqPath i s0 r)
     = foldl (\<lambda>rec b. remember b rec) (run_recent r) (stepBeats sqStart sqEnd sqPath i s0 r)
   \<and> (length (run_recent r) \<le> 16 \<longrightarrow>
        run_recent (genStep surfaces intents sqStart sqEnd sqPath i s0 r)
          = lastN 16 (run_recent r @ stepBeats sqStart sqEnd sqPath i s0 r))
   \<and> run_out (genStep surfaces intents sqStart sqEnd sqPath i s0 r)
     = run_out r @ stepBridge i s0 r
         @ textLines surfaces (st_NCV (withLedger i s0)) (stepBeats sqStart sqEnd sqPath i s0 r)
         @ textLines surfaces (st_NCV (withLedger i s0)) (stepIntents intents i)
   \<and> ((\<forall>b \<in> set (stepBeats sqStart sqEnd sqPath i s0 r).
          pickSurfaceText surfaces b (st_NCV (withLedger i s0)) = []) \<longrightarrow>
        textLines surfaces (st_NCV (withLedger i s0)) (stepBeats sqStart sqEnd sqPath i s0 r) = [])
   \<and> (pickSurfaceText surfaces fn ncv = [] \<longrightarrow>
        run_out (emitBeat surfaces ncv r fn) = run_out r
        \<and> run_recent (emitBeat surfaces ncv r fn) = remember fn (run_recent r)
        \<and> run_planned (emitBeat surfaces ncv r fn) = run_planned r @ [fn])"
proof (intro conjI impI)
  let ?step = "genStep surfaces intents sqStart sqEnd sqPath i s0 r"
  let ?beats = "stepBeats sqStart sqEnd sqPath i s0 r"
  show "run_tokens ?step = run_tokens r \<union> (\<Union>b \<in> set ?beats. givesSet b)"
    by (simp add: genStep_eq)
  show "run_planned ?step = run_planned r @ ?beats"
    by (simp add: genStep_eq)
  show h: "run_recent ?step = foldl (\<lambda>rec b. remember b rec) (run_recent r) ?beats"
    by (simp add: genStep_eq)
  show "run_recent ?step = lastN 16 (run_recent r @ ?beats)" if "length (run_recent r) \<le> 16"
    using that by (simp add: h remember_fold)
  show "run_out ?step = run_out r @ stepBridge i s0 r
         @ textLines surfaces (st_NCV (withLedger i s0)) ?beats
         @ textLines surfaces (st_NCV (withLedger i s0)) (stepIntents intents i)"
    by (simp add: genStep_eq)
  show "textLines surfaces (st_NCV (withLedger i s0)) ?beats = []"
    if "\<forall>b \<in> set ?beats. pickSurfaceText surfaces b (st_NCV (withLedger i s0)) = []"
    using that by (rule textLines_empty)
  show "run_out (emitBeat surfaces ncv r fn) = run_out r"
    if "pickSurfaceText surfaces fn ncv = []"
    using that by (simp add: emitBeat_def pushLine_def)
  show "run_recent (emitBeat surfaces ncv r fn) = remember fn (run_recent r)"
    by (simp add: emitBeat_def)
  show "run_planned (emitBeat surfaces ncv r fn) = run_planned r @ [fn]"
    by (simp add: emitBeat_def)
qed

theorem effects_without_visible_line_witness:
  "stepBeats 0 0 [] 0 (emptyState []) (initRun silentSurfaces)
     = [''fn.trail_cut'', ''fn.road_walk'', ''fn.feast_smell'']
   \<and> run_out (genStep silentSurfaces [] 0 0 [] 0 (emptyState []) (initRun silentSurfaces))
     = run_out (initRun silentSurfaces)
   \<and> run_tokens (initRun silentSurfaces) = {''left_road''}
   \<and> run_tokens (genStep silentSurfaces [] 0 0 [] 0 (emptyState []) (initRun silentSurfaces))
     = {''on_road'', ''in_trail'', ''left_road''}
   \<and> run_recent (genStep silentSurfaces [] 0 0 [] 0 (emptyState []) (initRun silentSurfaces))
     = [''fn.trail_cut'', ''fn.road_walk'', ''fn.feast_smell'']"
proof -
  let ?r = "initRun silentSurfaces"
  let ?e = "emptyState []"
  have b: "stepBeats 0 0 [] 0 ?e ?r = [''fn.trail_cut'', ''fn.road_walk'', ''fn.feast_smell'']"
    by (rule quiet_step0(2)) simp
  have c: "classified ?r (withLedger 0 ?e) = Fairytale"
    by (rule classified_quiet) (simp add: initRun_fields fairyLeads_uniform)
  have br: "stepBridge 0 ?e ?r = []"
    by (simp add: stepBridge_def c initRun_regime allowedBridge_def ALLOWED_BRIDGES_def)
  have it: "stepIntents [] 0 = []" by (simp add: stepIntents_def nth_opt_def)
  have silent: "\<forall>fn \<in> set (stepBeats 0 0 [] 0 ?e ?r).
      pickSurfaceText silentSurfaces fn (st_NCV (withLedger 0 ?e)) = []"
    unfolding b using silent_text by blast
  have len: "length (run_recent ?r) \<le> 16" by (simp add: initRun_fields)
  note t = effects_without_visible_line [where surfaces = silentSurfaces and intents = "[]"
      and sqStart = 0 and sqEnd = 0 and sqPath = "[]" and i = 0 and ?s0.0 = ?e and r = ?r]
  from t silent have "textLines silentSurfaces (st_NCV (withLedger 0 ?e)) (stepBeats 0 0 [] 0 ?e ?r) = []"
    by blast
  moreover from t have "run_out (genStep silentSurfaces [] 0 0 [] 0 ?e ?r)
     = run_out ?r @ stepBridge 0 ?e ?r
         @ textLines silentSurfaces (st_NCV (withLedger 0 ?e)) (stepBeats 0 0 [] 0 ?e ?r)
         @ textLines silentSurfaces (st_NCV (withLedger 0 ?e)) (stepIntents [] 0)"
    by blast
  ultimately have o: "run_out (genStep silentSurfaces [] 0 0 [] 0 ?e ?r) = run_out ?r"
    by (simp add: br it textLines_def)
  from t have "run_tokens (genStep silentSurfaces [] 0 0 [] 0 ?e ?r)
     = run_tokens ?r \<union> (\<Union>b \<in> set (stepBeats 0 0 [] 0 ?e ?r). givesSet b)"
    by blast
  then have k: "run_tokens (genStep silentSurfaces [] 0 0 [] 0 ?e ?r) = {''on_road'', ''in_trail'', ''left_road''}"
    by (simp add: b quiet_gives initRun_fields seedTokens_def)
  from t len have "run_recent (genStep silentSurfaces [] 0 0 [] 0 ?e ?r)
     = lastN 16 (run_recent ?r @ stepBeats 0 0 [] 0 ?e ?r)"
    by blast
  then have h: "run_recent (genStep silentSurfaces [] 0 0 [] 0 ?e ?r)
     = [''fn.trail_cut'', ''fn.road_walk'', ''fn.feast_smell'']"
    by (simp add: b initRun_fields lastN_def)
  show ?thesis using b o k h by (simp add: initRun_fields seedTokens_def)
qed

lemma quietRun_leads: "fairyLeads (run_weights (quietRun k))"
  by (induction k) (simp_all add: initRun_fields fairyLeads_uniform genStep_eq inst_quiet mix_quiet(1))

lemma quietRun_classified: "classified (quietRun k) (withLedger i (emptyState [])) = Fairytale"
  by (rule classified_quiet) (rule quietRun_leads)

lemma quietRun_regime_Suc: "run_regime (quietRun (Suc k)) = steer k 0 3 quietPath Fairytale"
  by (simp add: genStep_eq stepRegime_def quietRun_classified)

lemma quietRun_regimes:
  "run_regime (quietRun 1) = Fairytale" "run_regime (quietRun 2) = Trickster"
  "run_regime (quietRun 3) = Trickster" "run_regime (quietRun 4) = Fairytale"
proof -
  have e: "(1::nat) = Suc 0" "(2::nat) = Suc 1" "(3::nat) = Suc 2" "(4::nat) = Suc 3" by simp_all
  show "run_regime (quietRun 1) = Fairytale"
    unfolding e(1) quietRun_regime_Suc by (simp add: steer_def nth_opt_def quietPath_def)
  show "run_regime (quietRun 2) = Trickster"
    unfolding e(2) quietRun_regime_Suc by (simp add: steer_def nth_opt_def quietPath_def)
  show "run_regime (quietRun 3) = Trickster"
    unfolding e(3) quietRun_regime_Suc by (simp add: steer_def nth_opt_def quietPath_def)
  show "run_regime (quietRun 4) = Fairytale"
    unfolding e(4) quietRun_regime_Suc by (simp add: steer_def nth_opt_def quietPath_def)
qed

lemma quietRun_is_run: "runOf [] [] (replicate 4 (emptyState [])) = quietRun 4"
proof -
  have a: "sqStartOf 4 = 0" and b: "sqEndOf 4 = 3" by (simp_all add: sqStartOf_def sqEndOf_def)
  have p: "pickSideQuestPath (Suc (Suc (Suc 0))) [emptyState [], emptyState [], emptyState []] = quietPath"
    by (simp add: pickSideQuestPath_def nth_opt_def emptyState_def jgt_def Let_def quietPath_def)
  have "runOf [] [] (replicate 4 (emptyState []))
      = genLoop [] [] 0 3 (pickSideQuestPath (max 1 (3 - 0)) (take (3 - 0) (drop 0 (replicate 4 (emptyState [])))))
          0 (replicate 4 (emptyState [])) (initRun [])"
    unfolding runOf_def Let_def length_replicate a b ..
  also have "\<dots> = quietRun 4"
    by (simp add: eval_nat_numeral p)
  finally show ?thesis .
qed

text \<open>
  Claim C6. The claim says that a step whose regime equals the previous step's regime
  never gets a bridge line, and that a listed change of regime gets its bridge line. On
  the code the bridge is looked up between the previous step's regime after the
  side-quest steering and this step's regime before it. A step in the "trials" node that
  follows a trickster step and is classified fairytale is steered to trickster again and
  still gets the trickster-to-fairytale bridge line; and a step steered from fairytale to
  trickster after a fairytale step gets no line although that pair is listed. In the run
  of the witness, steps 1 and 2 have the same regime whether one takes the regime the
  classifier gives (fairytale both) or the regime their beats are planned for (trickster
  both), and step 2 gets a bridge line.
\<close>

theorem bridge_compares_unsteered_regime:
  "(run_regime r = Trickster \<and> classified r (withLedger i s0) = Fairytale
      \<and> sqStart \<le> i \<and> i < sqEnd \<and> nth_opt sqPath (i - sqStart) = Some SQ_trials \<longrightarrow>
      run_regime (genStep surfaces intents sqStart sqEnd sqPath i s0 r) = Trickster
      \<and> stepBridge i s0 r
          = [''The trick they played earlier finds its balance; a basket sits waiting with their lost map inside.''])
   \<and> (run_regime r = Fairytale \<and> classified r (withLedger i s0) = Fairytale
      \<and> sqStart \<le> i \<and> i < sqEnd \<and> nth_opt sqPath (i - sqStart) = Some SQ_trials \<longrightarrow>
      run_regime (genStep surfaces intents sqStart sqEnd sqPath i s0 r) = Trickster
      \<and> stepBridge i s0 r = []
      \<and> allowedBridge Fairytale Trickster = Some ''bridge.rule_bent'')
   \<and> run_out (genStep surfaces intents sqStart sqEnd sqPath i s0 r)
       = run_out r @ stepBridge i s0 r
          @ textLines surfaces (st_NCV (withLedger i s0)) (stepBeats sqStart sqEnd sqPath i s0 r)
          @ textLines surfaces (st_NCV (withLedger i s0)) (stepIntents intents i)"
  by (simp add: genStep_eq stepRegime_def steer_def stepBridge_def allowedBridge_def
        ALLOWED_BRIDGES_def bridgeLine_def BRIDGE_FNS_def)

lemma quiet_states:
  "computeStates [[], [], [], []] (exampleCodebook\<lparr>channels := []\<rparr>) = Inr (replicate 4 (emptyState []))"
  by (simp add: computeStates_def stateOf_def emptyState_def hasKey_def exampleCodebook_def
        eval_nat_numeral)

theorem bridge_compares_unsteered_regime_witness:
  "computeStates [[], [], [], []] (exampleCodebook\<lparr>channels := []\<rparr>) = Inr (replicate 4 (emptyState []))
   \<and> runOf [] [] (replicate 4 (emptyState [])) = quietRun 4
   \<and> run_regime (quietRun 1) = Fairytale
   \<and> classified (quietRun 1) (withLedger 1 (emptyState [])) = Fairytale
   \<and> stepBridge 1 (emptyState []) (quietRun 1) = []
   \<and> run_regime (quietRun 2) = Trickster
   \<and> classified (quietRun 2) (withLedger 2 (emptyState [])) = Fairytale
   \<and> stepBridge 2 (emptyState []) (quietRun 2)
       = [''The trick they played earlier finds its balance; a basket sits waiting with their lost map inside.'']
   \<and> run_regime (quietRun 3) = Trickster"
proof -
  have n: "nth_opt quietPath (1 - 0) = Some SQ_trials" "nth_opt quietPath (2 - 0) = Some SQ_trials"
    by (simp_all add: nth_opt_def quietPath_def)
  have q2: "quietRun 2 = genStep [] [] 0 3 quietPath 1 (emptyState []) (quietRun 1)"
    and q3: "quietRun 3 = genStep [] [] 0 3 quietPath 2 (emptyState []) (quietRun 2)"
    by (simp_all add: eval_nat_numeral)
  have s1: "run_regime (quietRun 2) = Trickster \<and> stepBridge 1 (emptyState []) (quietRun 1) = []"
    using bridge_compares_unsteered_regime [where r = "quietRun 1" and i = 1 and ?s0.0 = "emptyState []"
        and sqStart = 0 and sqEnd = 3 and sqPath = quietPath and surfaces = "[]" and intents = "[]"]
      quietRun_regimes(1) quietRun_classified [of 1 1] n(1)
    by (simp add: q2)
  have s2: "run_regime (quietRun 3) = Trickster
      \<and> stepBridge 2 (emptyState []) (quietRun 2)
       = [''The trick they played earlier finds its balance; a basket sits waiting with their lost map inside.'']"
    using bridge_compares_unsteered_regime [where r = "quietRun 2" and i = 2 and ?s0.0 = "emptyState []"
        and sqStart = 0 and sqEnd = 3 and sqPath = quietPath and surfaces = "[]" and intents = "[]"]
      quietRun_regimes(2) quietRun_classified [of 2 2] n(2)
    by (simp add: q3)
  show ?thesis
    using s1 s2 quietRun_is_run quietRun_regimes(1) quiet_states
      quietRun_classified [of 1 1] quietRun_classified [of 2 2]
    by simp
qed

section \<open>Properties of the whole component\<close>

lemma trim_blank: "list_all isWhite t \<Longrightarrow> trim t = []"
proof -
  assume "list_all isWhite t"
  then have d: "dropWhile isWhite t = []" by (induction t) auto
  show ?thesis unfolding trim_def d by simp
qed

lemmas number_simps = strToNumber_def trim_def isWhite_def nonDecimal_def unsignedDecimal_def
  isDigit_def exponentPart_def scale10_def digitVal_def digitTable_def Let_def

lemma number_empty: "strToNumber [] = Fin 0"
  by (simp add: number_simps)

lemma number_value: "strToNumber ''value'' = NaN"
  by (simp add: number_simps)

lemma parse_blank: "list_all isWhite t \<Longrightarrow> parseCSV t = [[(''value'', VNum (Fin 0))]]"
  by (simp add: parseCSV_def trim_blank splitLines_def cells_def number_empty Let_def)

lemma rows_blank:
  "list_all isWhite t \<Longrightarrow>
   rowsOf t engaged = [map (\<lambda>k. (k, field [(''value'', VNum (Fin 0))] k)) (filter engaged [''value''])]"
  by (simp add: rowsOf_def parse_blank number_value Let_def)

lemma channelLoop_failure: "channelLoop rows idx win cb r chs s = Inl e \<Longrightarrow> e = TypeError"
proof (induction chs arbitrary: s)
  case Nil
  then show ?case by simp
next
  case (Cons c chs)
  then show ?case
    by (auto simp: Let_def binValue_def split: sum.splits option.splits if_splits)
qed

lemma mapRows_failure:
  "(\<And>i r e. f i r = Inl e \<Longrightarrow> e = TypeError) \<Longrightarrow> mapRows f k rows = Inl e \<Longrightarrow> e = TypeError"
proof (induction rows arbitrary: k)
  case Nil
  then show ?case by simp
next
  case (Cons r rows)
  then show ?case by (auto split: sum.splits)
qed

lemma computeStates_failure: "computeStates rows cb = Inl e \<Longrightarrow> e = TypeError"
  unfolding computeStates_def
proof (erule mapRows_failure [rotated])
  fix i r e assume "stateOf rows (windowOf cb) cb i r = Inl e"
  then show "e = TypeError"
    by (auto simp: stateOf_def Let_def split: sum.splits dest: channelLoop_failure)
qed

lemma genLoop_out:
  "\<exists>mid. run_out (genLoop surfaces intents sqStart sqEnd sqPath i ss r) = run_out r @ mid"
proof (induction ss arbitrary: i r)
  case Nil
  then show ?case by simp
next
  case (Cons s ss)
  obtain mid where "run_out (genLoop surfaces intents sqStart sqEnd sqPath (Suc i) ss
        (genStep surfaces intents sqStart sqEnd sqPath i s r))
      = run_out (genStep surfaces intents sqStart sqEnd sqPath i s r) @ mid"
    using Cons.IH by blast
  then show ?case by (simp add: genStep_eq)
qed

lemma onGenerate_shape:
  assumes "rows \<noteq> []"
  shows "\<exists>mid. onGenerate surfaces intents rows states
           = Inr ([OPENING, callLine surfaces] @ mid @ [returnLine surfaces, CLOSING])"
proof -
  obtain mid where "run_out (runOf surfaces intents states) = run_out (initRun surfaces) @ mid"
    unfolding runOf_def Let_def using genLoop_out by blast
  then show ?thesis using assms by (simp add: onGenerate_def initRun_fields)
qed

text \<open>
  Claim C2. The claim says that an empty or whitespace-only table text is reported as
  "no data" and produces no narrative. On the code the parser turns such a text into one
  row (a single cell \<open>value = 0\<close>), the component keeps one row, the guard on an
  empty row list does not fire, and a narrative is generated whenever the states can be
  computed.
\<close>

theorem blank_table_still_generates:
  "list_all isWhite t \<Longrightarrow>
   length (rowsOf t engaged) = 1
   \<and> generate surfaces ev cb t engaged \<noteq> Inl NoData
   \<and> (binsComplete cb \<longrightarrow>
        (\<exists>out. generate surfaces ev cb t engaged = Inr out \<and> 4 \<le> length out
               \<and> hd out = OPENING \<and> last out = CLOSING))"
proof (intro conjI impI)
  assume w: "list_all isWhite t"
  show len: "length (rowsOf t engaged) = 1" by (simp add: rows_blank [OF w])
  then have ne: "rowsOf t engaged \<noteq> []" by auto
  show "generate surfaces ev cb t engaged \<noteq> Inl NoData"
  proof (cases "computeStates (rowsOf t engaged) cb")
    case (Inl e)
    then have "e = TypeError" by (rule computeStates_failure)
    then show ?thesis using Inl ne by (simp add: generate_def statesOf_def Let_def)
  next
    case (Inr states)
    then show ?thesis
      using ne onGenerate_shape [OF ne, of surfaces "map (\<lambda>s. selectFunctions ev s cb) states" states]
      by (auto simp: generate_def statesOf_def Let_def)
  qed
  assume "binsComplete cb"
  then obtain states where st: "computeStates (rowsOf t engaged) cb = Inr states"
    using computeStates_total [of cb "rowsOf t engaged"] unfolding binsComplete_def by blast
  obtain mid where "onGenerate surfaces (map (\<lambda>s. selectFunctions ev s cb) states) (rowsOf t engaged) states
      = Inr ([OPENING, callLine surfaces] @ mid @ [returnLine surfaces, CLOSING])"
    using onGenerate_shape [OF ne] by blast
  then have "generate surfaces ev cb t engaged
      = Inr ([OPENING, callLine surfaces] @ mid @ [returnLine surfaces, CLOSING])"
    using st ne by (simp add: generate_def statesOf_def Let_def)
  then show "\<exists>out. generate surfaces ev cb t engaged = Inr out \<and> 4 \<le> length out
               \<and> hd out = OPENING \<and> last out = CLOSING"
    by simp
qed

theorem blank_table_still_generates_witness:
  "list_all isWhite [] \<and> list_all isWhite [CHR '' '', CHR 0x0A]
   \<and> length (rowsOf [] geologyEngaged) = 1
   \<and> generate [] (\<lambda>e v. None) exampleCodebook [] geologyEngaged \<noteq> Inl NoData
   \<and> binsComplete exampleCodebook
   \<and> (\<exists>out. generate [] (\<lambda>e v. None) exampleCodebook [] geologyEngaged = Inr out \<and> 4 \<le> length out)"
proof -
  have a: "list_all isWhite []" by simp
  have b: "binsComplete exampleCodebook" unfolding binsComplete_def by (rule exampleCodebook_bins)
  have c: "list_all isWhite [CHR '' '', CHR 0x0A]" by (simp add: isWhite_def)
  show ?thesis
    using a b c blank_table_still_generates [OF a, of geologyEngaged "[]" "\<lambda>e v. None" exampleCodebook]
    by blast
qed

















end
